theory Spec2Isabelle
  imports Complex_Main "HOL-Library.Word" "HOL-Library.AList" "HOL-Library.Multiset"
begin


section \<open>Graph data: identifiers, kinds, properties, nodes\<close>

type_synonym uint64 = "64 word"

text \<open>
  \<^verbatim>\<open>graph.Kind\<close> names node kinds and relationship kinds alike; the kinds below are the ones
  the modelled functions mention.
\<close>

datatype Kind =
  Entity | User | Group | LocalGroup | Computer | Domain | Container |
  CertTemplate | EnterpriseCA | RootCA | AIACA | NTAuthStore |
  MemberOf | MemberOfLocalGroup | GenericAll | Enroll | AllExtendedRights | PublishedTo |
  IssuedSignedBy | EnterpriseCAFor | RootCAFor | TrustedForNTAuth | NTAuthStoreFor |
  SameForestTrust | CrossForestTrust | GetChanges | GetChangesInFilteredSet |
  ADCSESC1 | HasTrustKeys | SyncLAPSPassword | CanRDP

text \<open>
  A property value is a boolean, a number or a string. Numbers are read as Go's
  \<^verbatim>\<open>float64\<close>: a finite value, an infinity or NaN; \<open>f64_gt\<close> and \<open>f64_le\<close> are Go's
  \<^verbatim>\<open>>\<close> and \<^verbatim>\<open><=\<close> on them (every comparison with NaN is false).
\<close>

datatype float64 = Finite real | PosInf | NegInf | NaN

fun f64_gt :: "float64 \<Rightarrow> float64 \<Rightarrow> bool" where
  "f64_gt (Finite a) (Finite b) = (a > b)"
| "f64_gt PosInf (Finite b) = True"
| "f64_gt PosInf NegInf = True"
| "f64_gt (Finite a) NegInf = True"
| "f64_gt _ _ = False"

fun f64_le :: "float64 \<Rightarrow> float64 \<Rightarrow> bool" where
  "f64_le (Finite a) (Finite b) = (a \<le> b)"
| "f64_le NegInf (Finite b) = True"
| "f64_le NegInf NegInf = True"
| "f64_le NegInf PosInf = True"
| "f64_le (Finite a) PosInf = True"
| "f64_le PosInf PosInf = True"
| "f64_le _ _ = False"

datatype PropertyValue = BoolValue bool | NumberValue float64 | StringValue string

datatype Property =
  RequiresManagerApproval | AuthenticationEnabled | EnrolleeSuppliesSubject |
  SchemaVersion | AuthorizedSignatures | NetBIOS | DomainSID | SamAccountName |
  ObjectID | Name | HasURA | HasLAPS

record Node =
  ID :: uint64
  Kinds :: "Kind list"
  Properties :: "Property \<rightharpoonup> PropertyValue"

record Relationship =
  RelID :: uint64
  StartID :: uint64
  EndID :: uint64
  RelKind :: Kind

text \<open>
  Errors are values. A property read fails when the property is absent or holds a value of
  another type; the store's own failures are \<open>ErrNotFound\<close> and \<open>DatabaseError\<close>.
\<close>

datatype error =
  PropertyError Property | ErrNotFound | ErrNoResultsFound | DatabaseError |
  TypeAssertionFailed | UnsupportedDirection

text \<open>
  A call that can panic (a nil dereference, a failed unchecked type assertion) either
  returns its Go result or panics.
\<close>

datatype 'a outcome = Returns 'a | Panics

definition PropertyBool :: "Node \<Rightarrow> Property \<Rightarrow> error + bool" where
  "PropertyBool n p =
     (case Properties n p of Some (BoolValue b) \<Rightarrow> Inr b | _ \<Rightarrow> Inl (PropertyError p))"

definition PropertyFloat64 :: "Node \<Rightarrow> Property \<Rightarrow> error + float64" where
  "PropertyFloat64 n p =
     (case Properties n p of Some (NumberValue v) \<Rightarrow> Inr v | _ \<Rightarrow> Inl (PropertyError p))"

definition PropertyString :: "Node \<Rightarrow> Property \<Rightarrow> error + string" where
  "PropertyString n p =
     (case Properties n p of Some (StringValue v) \<Rightarrow> Inr v | _ \<Rightarrow> Inl (PropertyError p))"

definition ContainsOneOf :: "Kind list \<Rightarrow> Kind list \<Rightarrow> bool" where
  "ContainsOneOf kinds others = (\<exists>k \<in> set kinds. k \<in> set others)"

section \<open>Reachability sets\<close>

text \<open>
  A Reachability Set (\<^verbatim>\<open>cardinality.Duplex[uint64]\<close>, created by \<^verbatim>\<open>NewBitmap64\<close>) is a set of
  64-bit identifiers. \<^verbatim>\<open>Add\<close>, \<^verbatim>\<open>Remove\<close>, \<^verbatim>\<open>Or\<close>, \<^verbatim>\<open>And\<close> and \<^verbatim>\<open>Contains\<close> are
  \<open>insert\<close>, set difference, \<open>\<union>\<close>, \<open>\<inter>\<close> and \<open>\<in>\<close>; \<^verbatim>\<open>Each\<close> visits the members in
  ascending order; \<^verbatim>\<open>Cardinality\<close> returns the member count as a \<^verbatim>\<open>uint64\<close>.
\<close>

type_synonym bitmap64 = "uint64 set"

definition Each :: "bitmap64 \<Rightarrow> uint64 list" where
  "Each s = sorted_list_of_set s"

definition Cardinality :: "bitmap64 \<Rightarrow> uint64" where
  "Cardinality s = of_nat (card s)"

definition Xor :: "bitmap64 \<Rightarrow> bitmap64 \<Rightarrow> bitmap64" where
  "Xor s t = (s - t) \<union> (t - s)"

type_synonym PathAggregator = "uint64 \<Rightarrow> bitmap64"

section \<open>Cross-product calculator (ad.go, CalculateCrossProductNodeSets)\<close>

text \<open>
  The path aggregator enters through its \<^verbatim>\<open>Cardinality\<close> method only; the aggregator that
  \<^verbatim>\<open>ResolveAllGroupMemberships\<close> builds is bitmap-backed, so a lookup yields a Reachability
  Set. \<open>specialGroups\<close> is the node set that \<^verbatim>\<open>FetchAuthUsersAndEveryoneGroups(tx)\<close> returned
  (when the fetch fails the source logs the error and goes on with what it got).
  \<open>sortSlice\<close> stands for the two order-dependent steps of the source, ranging over the keys
  of the Go map \<open>tempMap\<close> (an unspecified order) and \<^verbatim>\<open>sort.Slice\<close> (not stable): it
  returns the keys of the map in the order the group loop visits them.
\<close>

text \<open>
  The loop over the entities of one node slice (ad.go, lines 436 to 445): it fills the
  slice's first-degree set and its unrolled set.
\<close>

fun unrollSlice :: "PathAggregator \<Rightarrow> Node list \<Rightarrow> bitmap64 \<times> bitmap64 \<Rightarrow> bitmap64 \<times> bitmap64" where
  "unrollSlice groupExpansions [] (firstDegreeSet, unrolledSet) = (firstDegreeSet, unrolledSet)"
| "unrollSlice groupExpansions (entity # rest) (firstDegreeSet, unrolledSet) =
     (let entityID = ID entity;
          firstDegreeSet' = insert entityID firstDegreeSet;
          unrolledSet' = insert entityID unrolledSet;
          unrolledSet'' =
            (if ContainsOneOf (Kinds entity) [Group, LocalGroup]
             then unrolledSet' \<union> groupExpansions entityID else unrolledSet')
      in unrollSlice groupExpansions rest (firstDegreeSet', unrolledSet''))"

text \<open>The loop over the sentinel groups (lines 450 to 455).\<close>

fun hasSpecialGroup :: "Node list \<Rightarrow> bitmap64 \<Rightarrow> bool" where
  "hasSpecialGroup [] unrolledSet = False"
| "hasSpecialGroup (specialGroup # rest) unrolledSet =
     (if ID specialGroup \<in> unrolledSet then True else hasSpecialGroup rest unrolledSet)"

text \<open>
  The loop over the node slices (lines 430 to 461): a slice whose unrolled set holds no
  sentinel group appends its two sets to \<open>firstDegreeSets\<close> and \<open>unrolledSets\<close>.
\<close>

fun unrollAll :: "Node list \<Rightarrow> PathAggregator \<Rightarrow> Node list list
    \<Rightarrow> bitmap64 list \<times> bitmap64 list \<Rightarrow> bitmap64 list \<times> bitmap64 list" where
  "unrollAll specialGroups groupExpansions [] (firstDegreeSets, unrolledSets) =
     (firstDegreeSets, unrolledSets)"
| "unrollAll specialGroups groupExpansions (nodeSlice # rest) (firstDegreeSets, unrolledSets) =
     (case unrollSlice groupExpansions nodeSlice ({}, {}) of
        (firstDegreeSet, unrolledSet) \<Rightarrow>
          if \<not> hasSpecialGroup specialGroups unrolledSet
          then unrollAll specialGroups groupExpansions rest
                 (firstDegreeSets @ [firstDegreeSet], unrolledSets @ [unrolledSet])
          else unrollAll specialGroups groupExpansions rest (firstDegreeSets, unrolledSets))"

text \<open>The loops of the case in which no slice is left (lines 465 to 469).\<close>

fun addAllEntities :: "Node list list \<Rightarrow> bitmap64 \<Rightarrow> bitmap64" where
  "addAllEntities [] resultEntities = resultEntities"
| "addAllEntities (nodeSet # rest) resultEntities =
     addAllEntities rest (fold (\<lambda>entity r. insert (ID entity) r) nodeSet resultEntities)"

text \<open>
  The visit of the first-degree principals of the reference set (lines 484 to 492).
\<close>

fun checkFirstDegree :: "PathAggregator \<Rightarrow> bitmap64 \<Rightarrow> uint64 list
    \<Rightarrow> bitmap64 \<times> bitmap64 \<Rightarrow> bitmap64 \<times> bitmap64" where
  "checkFirstDegree groupExpansions checkSet [] (resultEntities, unrolledRefSet) =
     (resultEntities, unrolledRefSet)"
| "checkFirstDegree groupExpansions checkSet (id' # rest) (resultEntities, unrolledRefSet) =
     (if id' \<in> checkSet
      then checkFirstDegree groupExpansions checkSet rest (insert id' resultEntities, unrolledRefSet)
      else checkFirstDegree groupExpansions checkSet rest
             (resultEntities, unrolledRefSet \<union> groupExpansions id'))"

text \<open>
  The visit of \<open>unrolledRefSet\<close> that fills \<open>tempMap\<close> (lines 496 to 505). The Go map is an
  association list, written to with \<open>AList.update\<close>.
\<close>

fun buildTempMap :: "PathAggregator \<Rightarrow> uint64 list \<Rightarrow> (uint64 \<times> uint64) list \<Rightarrow> (uint64 \<times> uint64) list" where
  "buildTempMap groupExpansions [] tempMap = tempMap"
| "buildTempMap groupExpansions (id' # rest) tempMap =
     (let idCardinality = Cardinality (groupExpansions id')
      in if idCardinality > 0
         then buildTempMap groupExpansions rest (AList.update id' idCardinality tempMap)
         else buildTempMap groupExpansions rest tempMap)"

text \<open>The loop over the sorted keys (lines 519 to 535).\<close>

fun foldGroups :: "PathAggregator \<Rightarrow> bitmap64 \<Rightarrow> uint64 list
    \<Rightarrow> bitmap64 \<times> bitmap64 \<Rightarrow> bitmap64 \<times> bitmap64" where
  "foldGroups groupExpansions checkSet [] (resultEntities, unrolledRefSet) =
     (resultEntities, unrolledRefSet)"
| "foldGroups groupExpansions checkSet (groupId # rest) (resultEntities, unrolledRefSet) =
     (if groupId \<notin> unrolledRefSet
      then foldGroups groupExpansions checkSet rest (resultEntities, unrolledRefSet)
      else if groupId \<in> checkSet
      then foldGroups groupExpansions checkSet rest
             (insert groupId resultEntities,
              Xor (unrolledRefSet - {groupId}) (groupExpansions groupId))
      else foldGroups groupExpansions checkSet rest (resultEntities, unrolledRefSet - {groupId}))"

text \<open>The visit of what is left in \<open>unrolledRefSet\<close> (lines 537 to 543).\<close>

fun addRemainder :: "bitmap64 \<Rightarrow> uint64 list \<Rightarrow> bitmap64 \<Rightarrow> bitmap64" where
  "addRemainder checkSet [] resultEntities = resultEntities"
| "addRemainder checkSet (remainder # rest) resultEntities =
     (if remainder \<in> checkSet
      then addRemainder checkSet rest (insert remainder resultEntities)
      else addRemainder checkSet rest resultEntities)"

text \<open>The function (lines 401 to 546).\<close>

definition CalculateCrossProductNodeSets ::
  "((uint64 \<times> uint64) list \<Rightarrow> uint64 list) \<Rightarrow> Node list \<Rightarrow> PathAggregator \<Rightarrow> Node list list \<Rightarrow> bitmap64" where
  "CalculateCrossProductNodeSets sortSlice specialGroups groupExpansions nodeSlices =
     (if length nodeSlices < 2 then {}
      else
        case unrollAll specialGroups groupExpansions nodeSlices ([], []) of
          (firstDegreeSets, unrolledSets) \<Rightarrow>
            if length firstDegreeSets = 0 then addAllEntities nodeSlices {}
            else if length firstDegreeSets = 1 then firstDegreeSets ! 0
            else
              let checkSet = fold (\<lambda>unrolledSet c. c \<inter> unrolledSet) (drop 2 unrolledSets)
                               ({} \<union> unrolledSets ! 1) in
              case checkFirstDegree groupExpansions checkSet (Each (firstDegreeSets ! 0)) ({}, {}) of
                (resultEntities, unrolledRefSet) \<Rightarrow>
                  let tempMap = buildTempMap groupExpansions (Each unrolledRefSet) [];
                      keys = sortSlice tempMap in
                  case foldGroups groupExpansions checkSet keys (resultEntities, unrolledRefSet) of
                    (resultEntities', unrolledRefSet') \<Rightarrow>
                      addRemainder checkSet (Each unrolledRefSet') resultEntities')"

text \<open>
  One admissible order for the group loop: the keys by ascending saved cardinality, ties in
  the order the map was filled. It is used where a run is evaluated.
\<close>

definition keysAscending :: "(uint64 \<times> uint64) list \<Rightarrow> uint64 list" where
  "keysAscending tempMap = map fst (sort_key snd tempMap)"

subsection \<open>The sets the specification speaks of\<close>

text \<open>
  The specification's words for the cross product, as sets: a slice's first-degree set (the
  identifiers of its members), its unrolled set (each member's own identifier plus, for a
  Group or LocalGroup member, its expansion from the aggregator), a slice being free of the
  sentinel groups, and a principal being covered by a result (in it, or in the expansion of
  a group in it).
\<close>

definition firstDegreeOf :: "Node list \<Rightarrow> bitmap64" where
  "firstDegreeOf nodeSlice = ID ` set nodeSlice"

definition unrolledOf :: "PathAggregator \<Rightarrow> Node list \<Rightarrow> bitmap64" where
  "unrolledOf groupExpansions nodeSlice =
     (\<Union>entity \<in> set nodeSlice.
        insert (ID entity)
          (if ContainsOneOf (Kinds entity) [Group, LocalGroup]
           then groupExpansions (ID entity) else {}))"

definition sentinelFree :: "Node list \<Rightarrow> PathAggregator \<Rightarrow> Node list \<Rightarrow> bool" where
  "sentinelFree specialGroups groupExpansions nodeSlice =
     (ID ` set specialGroups \<inter> unrolledOf groupExpansions nodeSlice = {})"

definition covered :: "PathAggregator \<Rightarrow> bitmap64 \<Rightarrow> uint64 \<Rightarrow> bool" where
  "covered groupExpansions result e =
     (e \<in> result \<or> (\<exists>g \<in> result. e \<in> groupExpansions g))"

subsection \<open>Concrete nodes and aggregators for evaluated runs\<close>

definition groupG :: Node where
  "groupG = \<lparr>ID = 1, Kinds = [Entity, Group], Properties = Map.empty\<rparr>"

definition userX :: Node where
  "userX = \<lparr>ID = 2, Kinds = [Entity, User], Properties = Map.empty\<rparr>"

definition userY :: Node where
  "userY = \<lparr>ID = 3, Kinds = [Entity, User], Properties = Map.empty\<rparr>"

definition authUsers :: Node where
  "authUsers = \<lparr>ID = 11, Kinds = [Entity, Group], Properties = Map.empty\<rparr>"

definition everyone :: Node where
  "everyone = \<lparr>ID = 12, Kinds = [Entity, Group], Properties = Map.empty\<rparr>"

definition expansionsG :: PathAggregator where
  "expansionsG = (\<lambda>_. {})(1 := {2, 3}, 12 := {11})"

section \<open>The ADCS ESC1 deriver (esc1.go)\<close>

subsection \<open>isCertTemplateValidForEsc1\<close>

definition isCertTemplateValidForEsc1 :: "Node \<Rightarrow> error + bool" where
  "isCertTemplateValidForEsc1 ct =
     (case PropertyBool ct RequiresManagerApproval of
        Inl err \<Rightarrow> Inl err
      | Inr reqManagerApproval \<Rightarrow>
          if reqManagerApproval then Inr False
          else
            case PropertyBool ct AuthenticationEnabled of
              Inl err \<Rightarrow> Inl err
            | Inr authenticationEnabled \<Rightarrow>
                if \<not> authenticationEnabled then Inr False
                else
                  case PropertyBool ct EnrolleeSuppliesSubject of
                    Inl err \<Rightarrow> Inl err
                  | Inr enrolleeSuppliesSubject \<Rightarrow>
                      if \<not> enrolleeSuppliesSubject then Inr False
                      else
                        case PropertyFloat64 ct SchemaVersion of
                          Inl err \<Rightarrow> Inl err
                        | Inr schemaVersion \<Rightarrow>
                            case PropertyFloat64 ct AuthorizedSignatures of
                              Inl err \<Rightarrow> Inl err
                            | Inr authorizedSignatures \<Rightarrow>
                                if f64_gt schemaVersion (Finite 1) \<and>
                                   f64_gt authorizedSignatures (Finite 0)
                                then Inr False
                                else Inr True)"

subsection \<open>ADCSESC1Path1Pattern\<close>

text \<open>
  Query criteria are built from the constructors the source uses. \<open>matches\<close> is how the
  store reads them on a relationship and its end node: a comparison on a property the node
  lacks, or holds with another type, does not match. \<open>Not\<close> is read two-valued, which is
  exact for the identifier and kind comparisons the source applies it to. A traversal
  pattern is a list of steps, each with the criteria an edge and its end node must meet.
\<close>

datatype Criteria =
    And "Criteria list"
  | Or "Criteria list"
  | Not Criteria
  | RelationshipKindIn "Kind list"
  | EndKindIn "Kind list"
  | EndPropertyEquals Property PropertyValue
  | EndPropertyGreaterThan Property float64
  | StartIDEquals uint64
  | EndIDEquals uint64
  | EndIDIn "uint64 list"

datatype PatternStep = Outbound Criteria | OutboundWithDepth nat nat Criteria

fun matches :: "Criteria \<Rightarrow> Relationship \<Rightarrow> Node \<Rightarrow> bool" where
  "matches (And cs) rel n = (\<forall>c \<in> set cs. matches c rel n)"
| "matches (Or cs) rel n = (\<exists>c \<in> set cs. matches c rel n)"
| "matches (Not c) rel n = (\<not> matches c rel n)"
| "matches (RelationshipKindIn ks) rel n = (RelKind rel \<in> set ks)"
| "matches (EndKindIn ks) rel n = ContainsOneOf (Kinds n) ks"
| "matches (EndPropertyEquals p v) rel n = (Properties n p = Some v)"
| "matches (EndPropertyGreaterThan p v) rel n =
     (case Properties n p of Some (NumberValue x) \<Rightarrow> f64_gt x v | _ \<Rightarrow> False)"
| "matches (StartIDEquals i) rel n = (StartID rel = i)"
| "matches (EndIDEquals i) rel n = (EndID rel = i)"
| "matches (EndIDIn ids) rel n = (EndID rel \<in> set ids)"

definition ADCSESC1Path1Pattern :: "uint64 \<Rightarrow> PatternStep list" where
  "ADCSESC1Path1Pattern domainID =
     [OutboundWithDepth 0 0 (And [RelationshipKindIn [MemberOf], EndKindIn [Group]]),
      Outbound (And
        [RelationshipKindIn [GenericAll, Enroll, AllExtendedRights],
         EndKindIn [CertTemplate],
         Or [And [EndPropertyEquals RequiresManagerApproval (BoolValue False),
                  EndPropertyGreaterThan SchemaVersion (Finite 1),
                  EndPropertyEquals AuthorizedSignatures (NumberValue (Finite 0)),
                  EndPropertyEquals AuthenticationEnabled (BoolValue True),
                  EndPropertyEquals EnrolleeSuppliesSubject (BoolValue True)],
             And [EndPropertyEquals RequiresManagerApproval (BoolValue False),
                  EndPropertyEquals SchemaVersion (NumberValue (Finite 1)),
                  EndPropertyEquals AuthenticationEnabled (BoolValue True),
                  EndPropertyEquals EnrolleeSuppliesSubject (BoolValue True)]]]),
      Outbound (And [RelationshipKindIn [PublishedTo], EndKindIn [EnterpriseCA]]),
      OutboundWithDepth 0 0
        (And [RelationshipKindIn [IssuedSignedBy, EnterpriseCAFor], EndKindIn [EnterpriseCA, AIACA]]),
      Outbound (And [RelationshipKindIn [IssuedSignedBy, EnterpriseCAFor], EndKindIn [RootCA]]),
      Outbound (And [RelationshipKindIn [RootCAFor], EndIDEquals domainID])]"

definition ADCSESC1Path2Pattern :: "uint64 \<Rightarrow> bitmap64 \<Rightarrow> PatternStep list" where
  "ADCSESC1Path2Pattern domainID enterpriseCAs =
     [OutboundWithDepth 0 0 (And [RelationshipKindIn [MemberOf], EndKindIn [Group]]),
      Outbound (And [RelationshipKindIn [Enroll], EndIDIn (Each enterpriseCAs)]),
      Outbound (And [RelationshipKindIn [TrustedForNTAuth], EndKindIn [NTAuthStore]]),
      Outbound (And [RelationshipKindIn [NTAuthStoreFor], EndIDEquals domainID])]"

text \<open>
  The validity predicate in the specification's words: manager approval disabled,
  authentication enabled, enrollee supplies subject, and schema version at most 1, or above
  1 with zero authorized signatures.
\<close>

definition esc1ValidityPredicate :: "Node \<Rightarrow> bool" where
  "esc1ValidityPredicate ct =
     (Properties ct RequiresManagerApproval = Some (BoolValue False) \<and>
      Properties ct AuthenticationEnabled = Some (BoolValue True) \<and>
      Properties ct EnrolleeSuppliesSubject = Some (BoolValue True) \<and>
      (case Properties ct SchemaVersion of
         Some (NumberValue schemaVersion) \<Rightarrow>
           f64_le schemaVersion (Finite 1) \<or>
           (f64_gt schemaVersion (Finite 1) \<and>
            Properties ct AuthorizedSignatures = Some (NumberValue (Finite 0)))
       | _ \<Rightarrow> False))"

subsection \<open>PostADCSESC1\<close>

text \<open>
  The ADCS cache enters through the three getters the deriver calls. The output channel is
  the list of jobs submitted so far; \<^verbatim>\<open>channels.Submit\<close> appends to it (the context is taken
  as not cancelled). The function returns the channel and its error, which is always nil.
  \<open>targetDomains\<close> is the slice of the target-domain node set.
\<close>

record ADCSCache =
  GetPublishedTemplateCache :: "uint64 \<Rightarrow> Node list"
  GetEnterpriseCAEnrollers :: "uint64 \<Rightarrow> Node list"
  GetCertTemplateEnrollers :: "uint64 \<Rightarrow> Node list"

record CreatePostRelationshipJob =
  FromID :: uint64
  ToID :: uint64
  Kind :: Kind

fun esc1Results :: "((uint64 \<times> uint64) list \<Rightarrow> uint64 list) \<Rightarrow> Node list \<Rightarrow> PathAggregator
    \<Rightarrow> ADCSCache \<Rightarrow> Node list \<Rightarrow> Node list \<Rightarrow> bitmap64 \<Rightarrow> bitmap64" where
  "esc1Results sortSlice specialGroups expandedGroups cache ecaEnrollers [] results = results"
| "esc1Results sortSlice specialGroups expandedGroups cache ecaEnrollers (certTemplate # rest) results =
     (case isCertTemplateValidForEsc1 certTemplate of
        Inl err \<Rightarrow>
          esc1Results sortSlice specialGroups expandedGroups cache ecaEnrollers rest results
      | Inr valid \<Rightarrow>
          if \<not> valid
          then esc1Results sortSlice specialGroups expandedGroups cache ecaEnrollers rest results
          else esc1Results sortSlice specialGroups expandedGroups cache ecaEnrollers rest
                 (results \<union> CalculateCrossProductNodeSets sortSlice specialGroups expandedGroups
                    [GetCertTemplateEnrollers cache (ID certTemplate), ecaEnrollers]))"

fun submitDomains :: "Kind \<Rightarrow> uint64 \<Rightarrow> Node list \<Rightarrow> CreatePostRelationshipJob list
    \<Rightarrow> CreatePostRelationshipJob list" where
  "submitDomains kind value [] outC = outC"
| "submitDomains kind value (domain # rest) outC =
     submitDomains kind value rest (outC @ [\<lparr>FromID = value, ToID = ID domain, Kind = kind\<rparr>])"

fun submitResults :: "Kind \<Rightarrow> uint64 list \<Rightarrow> Node list \<Rightarrow> CreatePostRelationshipJob list
    \<Rightarrow> CreatePostRelationshipJob list" where
  "submitResults kind [] targetDomains outC = outC"
| "submitResults kind (value # rest) targetDomains outC =
     submitResults kind rest targetDomains (submitDomains kind value targetDomains outC)"

definition PostADCSESC1 :: "((uint64 \<times> uint64) list \<Rightarrow> uint64 list) \<Rightarrow> Node list
    \<Rightarrow> CreatePostRelationshipJob list \<Rightarrow> PathAggregator \<Rightarrow> Node \<Rightarrow> Node list \<Rightarrow> ADCSCache
    \<Rightarrow> CreatePostRelationshipJob list \<times> error option" where
  "PostADCSESC1 sortSlice specialGroups outC expandedGroups enterpriseCA targetDomains cache =
     (let publishedCertTemplates = GetPublishedTemplateCache cache (ID enterpriseCA) in
      if length publishedCertTemplates = 0 then (outC, None)
      else
        let ecaEnrollers = GetEnterpriseCAEnrollers cache (ID enterpriseCA);
            results = esc1Results sortSlice specialGroups expandedGroups cache ecaEnrollers
                        publishedCertTemplates {}
        in (submitResults ADCSESC1 (Each results) targetDomains outC, None))"

subsection \<open>The minimal ESC1 graph\<close>

text \<open>
  One User (2), one Group (1) the User belongs to, one CertTemplate (20) that meets the ESC1
  predicate, one EnterpriseCA (30) that publishes it, one RootCA (40) and one Domain (50).
  The Group holds the enrollment right on the template. The description leaves open who
  may enroll at the EnterpriseCA, so the cache takes its enrollers as a parameter.
\<close>

definition certTemplate1 :: Node where
  "certTemplate1 = \<lparr>ID = 20, Kinds = [Entity, CertTemplate], Properties =
     [RequiresManagerApproval \<mapsto> BoolValue False, AuthenticationEnabled \<mapsto> BoolValue True,
      EnrolleeSuppliesSubject \<mapsto> BoolValue True, SchemaVersion \<mapsto> NumberValue (Finite 2),
      AuthorizedSignatures \<mapsto> NumberValue (Finite 0)]\<rparr>"

definition enterpriseCA1 :: Node where
  "enterpriseCA1 = \<lparr>ID = 30, Kinds = [Entity, EnterpriseCA], Properties = Map.empty\<rparr>"

definition rootCA1 :: Node where
  "rootCA1 = \<lparr>ID = 40, Kinds = [Entity, RootCA], Properties = Map.empty\<rparr>"

definition domain1 :: Node where
  "domain1 = \<lparr>ID = 50, Kinds = [Entity, Domain], Properties = Map.empty\<rparr>"

definition minimalCache :: "Node list \<Rightarrow> ADCSCache" where
  "minimalCache ecaEnrollers =
     \<lparr>GetPublishedTemplateCache = (\<lambda>_. [])(30 := [certTemplate1]),
      GetEnterpriseCAEnrollers = (\<lambda>_. [])(30 := ecaEnrollers),
      GetCertTemplateEnrollers = (\<lambda>_. [])(20 := [groupG])\<rparr>"

text \<open>Templates on which the validity test and the specification's predicate part.\<close>

definition templateNoSignatures :: Node where
  "templateNoSignatures = \<lparr>ID = 21, Kinds = [Entity, CertTemplate], Properties =
     [RequiresManagerApproval \<mapsto> BoolValue False, AuthenticationEnabled \<mapsto> BoolValue True,
      EnrolleeSuppliesSubject \<mapsto> BoolValue True, SchemaVersion \<mapsto> NumberValue (Finite 1)]\<rparr>"

definition templateNegativeSignatures :: Node where
  "templateNegativeSignatures = \<lparr>ID = 22, Kinds = [Entity, CertTemplate], Properties =
     [RequiresManagerApproval \<mapsto> BoolValue False, AuthenticationEnabled \<mapsto> BoolValue True,
      EnrolleeSuppliesSubject \<mapsto> BoolValue True, SchemaVersion \<mapsto> NumberValue (Finite 2),
      AuthorizedSignatures \<mapsto> NumberValue (Finite (- 1))]\<rparr>"

text \<open>
  The principals of the specification's sentence on the deriver: the union, over the
  published templates the validity test accepts, of the cross product of the template's
  enrollers with the enrollers of the EnterpriseCA.
\<close>

definition esc1Principals :: "((uint64 \<times> uint64) list \<Rightarrow> uint64 list) \<Rightarrow> Node list
    \<Rightarrow> PathAggregator \<Rightarrow> Node \<Rightarrow> ADCSCache \<Rightarrow> bitmap64" where
  "esc1Principals sortSlice specialGroups expandedGroups enterpriseCA cache =
     (\<Union>ct \<in> {ct \<in> set (GetPublishedTemplateCache cache (ID enterpriseCA)).
                 isCertTemplateValidForEsc1 ct = Inr True}.
        CalculateCrossProductNodeSets sortSlice specialGroups expandedGroups
          [GetCertTemplateEnrollers cache (ID ct),
           GetEnterpriseCAEnrollers cache (ID enterpriseCA)])"

section \<open>Edge composition for ADCSESC1 (esc1.go, GetADCSESC1EdgeComposition)\<close>

text \<open>
  A path segment links a node and its incoming edge to the segment it descends from (its
  trunk); the root segment has neither edge nor trunk. \<^verbatim>\<open>WalkReverse\<close> hands the segments to
  a delegate from the terminal back to the root, while the delegate answers true;
  \<^verbatim>\<open>Search\<close> returns the node of the first segment on that way that the predicate accepts,
  or nil. \<^verbatim>\<open>Path()\<close> lists the nodes and edges of a segment from the root to the terminal.
\<close>

datatype PathSegment =
  PathSegment (SegNode: Node) (SegEdge: "Relationship option") (Trunk: "PathSegment option")

fun WalkReverse :: "(PathSegment \<Rightarrow> 's \<Rightarrow> 's \<times> bool) \<Rightarrow> PathSegment \<Rightarrow> 's \<Rightarrow> 's" where
  "WalkReverse delegate (PathSegment n e None) s = fst (delegate (PathSegment n e None) s)"
| "WalkReverse delegate (PathSegment n e (Some trunk)) s =
     (case delegate (PathSegment n e (Some trunk)) s of
        (s', continue) \<Rightarrow> if continue then WalkReverse delegate trunk s' else s')"

fun Search :: "(PathSegment \<Rightarrow> bool) \<Rightarrow> PathSegment \<Rightarrow> Node option" where
  "Search delegate (PathSegment n e None) =
     (if delegate (PathSegment n e None) then Some n else None)"
| "Search delegate (PathSegment n e (Some trunk)) =
     (if delegate (PathSegment n e (Some trunk)) then Some n else Search delegate trunk)"

fun segmentNodes :: "PathSegment \<Rightarrow> Node list" where
  "segmentNodes (PathSegment n e None) = [n]"
| "segmentNodes (PathSegment n e (Some trunk)) = segmentNodes trunk @ [n]"

fun segmentEdges :: "PathSegment \<Rightarrow> Relationship list" where
  "segmentEdges (PathSegment n e None) = (case e of None \<Rightarrow> [] | Some r \<Rightarrow> [r])"
| "segmentEdges (PathSegment n e (Some trunk)) =
     segmentEdges trunk @ (case e of None \<Rightarrow> [] | Some r \<Rightarrow> [r])"

record Path =
  Nodes :: "Node list"
  Edges :: "Relationship list"

definition SegmentPath :: "PathSegment \<Rightarrow> Path" where
  "SegmentPath segment = \<lparr>Nodes = segmentNodes segment, Edges = segmentEdges segment\<rparr>"

text \<open>
  The database enters through what its reads answered: the start node of the edge, the
  sentinel groups, and, for a traversal of a pattern from a root, the terminal segments in
  the order the pattern's delegate received them, or the traversal's error. A node set keeps
  one node per identifier; the order of its slice is not specified, so each of the two
  loops over the start nodes takes its order from \<open>NodeSetSlice\<close>.
\<close>

datatype PathLoop = Path1Loop | Path2Loop

record Database =
  ReadFetchNode :: "uint64 \<Rightarrow> error + Node"
  ReadAuthUsersAndEveryoneGroups :: "error + Node list"
  TraversalBreadthFirst :: "PatternStep list \<Rightarrow> Node \<Rightarrow> error + PathSegment list"
  NodeSetSlice :: "PathLoop \<Rightarrow> Node list \<Rightarrow> Node list"

definition NodeSet_Add :: "Node list \<Rightarrow> Node \<Rightarrow> Node list" where
  "NodeSet_Add nodes n =
     (if ID n \<in> ID ` set nodes then map (\<lambda>m. if ID m = ID n then n else m) nodes
      else nodes @ [n])"

definition NodeSet_AddSet :: "Node list \<Rightarrow> Node list \<Rightarrow> Node list" where
  "NodeSet_AddSet nodes other = fold (\<lambda>n acc. NodeSet_Add acc n) other nodes"

text \<open>
  The delegates of the two traversals: find the EnterpriseCA of the terminal segment and
  file the segment under it. For Path 1 the walk visits every segment and keeps the last
  EnterpriseCA it saw; for Path 2 the search stops at the first. Reading the identifier of
  a CA that was not found is a nil dereference.
\<close>

definition path1CA :: "PathSegment \<Rightarrow> Node option" where
  "path1CA terminal =
     WalkReverse
       (\<lambda>nextSegment enterpriseCANode.
          (if ContainsOneOf (Kinds (SegNode nextSegment)) [EnterpriseCA]
           then Some (SegNode nextSegment) else enterpriseCANode, True))
       terminal None"

definition path2CA :: "PathSegment \<Rightarrow> Node option" where
  "path2CA terminal =
     Search (\<lambda>nextSegment. ContainsOneOf (Kinds (SegNode nextSegment)) [EnterpriseCA]) terminal"

definition fileSegment :: "Node option \<Rightarrow> PathSegment
    \<Rightarrow> (uint64 \<Rightarrow> PathSegment list) \<times> bitmap64
    \<Rightarrow> ((uint64 \<Rightarrow> PathSegment list) \<times> bitmap64) outcome" where
  "fileSegment found terminal st =
     (case found of
        None \<Rightarrow> Panics
      | Some enterpriseCANode \<Rightarrow>
          (case st of (candidateSegments, enterpriseCAs) \<Rightarrow>
             Returns
               (candidateSegments(ID enterpriseCANode :=
                  candidateSegments (ID enterpriseCANode) @ [terminal]),
                insert (ID enterpriseCANode) enterpriseCAs)))"

definition path1Terminal :: "PathSegment \<Rightarrow> (uint64 \<Rightarrow> PathSegment list) \<times> bitmap64
    \<Rightarrow> ((uint64 \<Rightarrow> PathSegment list) \<times> bitmap64) outcome" where
  "path1Terminal terminal st = fileSegment (path1CA terminal) terminal st"

definition path2Terminal :: "PathSegment \<Rightarrow> (uint64 \<Rightarrow> PathSegment list) \<times> bitmap64
    \<Rightarrow> ((uint64 \<Rightarrow> PathSegment list) \<times> bitmap64) outcome" where
  "path2Terminal terminal st = fileSegment (path2CA terminal) terminal st"

fun forTerminals :: "(PathSegment \<Rightarrow> 's \<Rightarrow> 's outcome) \<Rightarrow> PathSegment list \<Rightarrow> 's \<Rightarrow> 's outcome" where
  "forTerminals delegate [] st = Returns st"
| "forTerminals delegate (terminal # rest) st =
     (case delegate terminal st of
        Panics \<Rightarrow> Panics
      | Returns st' \<Rightarrow> forTerminals delegate rest st')"

fun forStartNodes :: "(Node \<Rightarrow> error + PathSegment list) \<Rightarrow> (PathSegment \<Rightarrow> 's \<Rightarrow> 's outcome)
    \<Rightarrow> Node list \<Rightarrow> 's \<Rightarrow> (error + 's) outcome" where
  "forStartNodes breadthFirst delegate [] st = Returns (Inr st)"
| "forStartNodes breadthFirst delegate (n # rest) st =
     (case breadthFirst n of
        Inl err \<Rightarrow> Returns (Inl err)
      | Inr terminals \<Rightarrow>
          case forTerminals delegate terminals st of
            Panics \<Rightarrow> Panics
          | Returns st' \<Rightarrow> forStartNodes breadthFirst delegate rest st')"

fun renderPaths :: "(uint64 \<Rightarrow> PathSegment list) \<Rightarrow> uint64 list \<Rightarrow> Path list \<Rightarrow> Path list" where
  "renderPaths candidateSegments [] paths = paths"
| "renderPaths candidateSegments (value # rest) paths =
     renderPaths candidateSegments rest (paths @ map SegmentPath (candidateSegments value))"

definition GetADCSESC1EdgeComposition :: "Database \<Rightarrow> Relationship \<Rightarrow> (error + Path list) outcome" where
  "GetADCSESC1EdgeComposition db edge =
     (case ReadFetchNode db (StartID edge) of
        Inl err \<Rightarrow> Returns (Inl err)
      | Inr startNode \<Rightarrow>
          case ReadAuthUsersAndEveryoneGroups db of
            Inl err \<Rightarrow> Returns (Inl err)
          | Inr nodeSet \<Rightarrow>
              let startNodes = NodeSet_Add (NodeSet_AddSet [] nodeSet) startNode in
              case forStartNodes (TraversalBreadthFirst db (ADCSESC1Path1Pattern (EndID edge)))
                     path1Terminal (NodeSetSlice db Path1Loop startNodes) (\<lambda>_. [], {}) of
                Panics \<Rightarrow> Panics
              | Returns (Inl err) \<Rightarrow> Returns (Inl err)
              | Returns (Inr (candidateSegments, path1EnterpriseCAs)) \<Rightarrow>
                  case forStartNodes
                         (TraversalBreadthFirst db
                            (ADCSESC1Path2Pattern (EndID edge) path1EnterpriseCAs))
                         path2Terminal (NodeSetSlice db Path2Loop startNodes) (candidateSegments, {}) of
                    Panics \<Rightarrow> Panics
                  | Returns (Inl err) \<Rightarrow> Returns (Inl err)
                  | Returns (Inr (candidateSegments', path2EnterpriseCAs)) \<Rightarrow>
                      Returns (Inr (renderPaths candidateSegments'
                                      (Each (path1EnterpriseCAs \<inter> path2EnterpriseCAs)) [])))"

text \<open>
  What a traversal loop discovers, in the specification's sense: the terminal segments of
  the traversals from the given start nodes, and the identifier of the EnterpriseCA a
  segment was filed under.
\<close>

definition discovered :: "(Node \<Rightarrow> error + PathSegment list) \<Rightarrow> Node list \<Rightarrow> PathSegment list" where
  "discovered breadthFirst startNodes =
     concat (map (\<lambda>n. case breadthFirst n of Inl err \<Rightarrow> [] | Inr terminals \<Rightarrow> terminals)
               startNodes)"

definition caID :: "(PathSegment \<Rightarrow> Node option) \<Rightarrow> PathSegment \<Rightarrow> uint64" where
  "caID locate terminal = (case locate terminal of None \<Rightarrow> 0 | Some ca \<Rightarrow> ID ca)"

definition succeeds :: "error + 'a \<Rightarrow> bool" where
  "succeeds r = (case r of Inl err \<Rightarrow> False | Inr v \<Rightarrow> True)"

subsection \<open>A concrete composition\<close>

text \<open>
  UserX (2) is a member of GroupG (1), which may enroll in the template (20) published to
  the EnterpriseCA (30); the CA chains to the RootCA (40) of the Domain (50). UserX may
  enroll at the CA, which is trusted for NT authentication through the store (45).
\<close>

definition ntAuthStore1 :: Node where
  "ntAuthStore1 = \<lparr>ID = 45, Kinds = [Entity, NTAuthStore], Properties = Map.empty\<rparr>"

definition path1Segment :: PathSegment where
  "path1Segment =
     PathSegment domain1 (Some \<lparr>RelID = 105, StartID = 40, EndID = 50, RelKind = RootCAFor\<rparr>)
      (Some (PathSegment rootCA1 (Some \<lparr>RelID = 104, StartID = 30, EndID = 40, RelKind = IssuedSignedBy\<rparr>)
      (Some (PathSegment enterpriseCA1 (Some \<lparr>RelID = 103, StartID = 20, EndID = 30, RelKind = PublishedTo\<rparr>)
      (Some (PathSegment certTemplate1 (Some \<lparr>RelID = 102, StartID = 1, EndID = 20, RelKind = Enroll\<rparr>)
      (Some (PathSegment groupG (Some \<lparr>RelID = 101, StartID = 2, EndID = 1, RelKind = MemberOf\<rparr>)
      (Some (PathSegment userX None None))))))))))"

definition path2Segment :: PathSegment where
  "path2Segment =
     PathSegment domain1 (Some \<lparr>RelID = 108, StartID = 45, EndID = 50, RelKind = NTAuthStoreFor\<rparr>)
      (Some (PathSegment ntAuthStore1 (Some \<lparr>RelID = 107, StartID = 30, EndID = 45, RelKind = TrustedForNTAuth\<rparr>)
      (Some (PathSegment enterpriseCA1 (Some \<lparr>RelID = 106, StartID = 2, EndID = 30, RelKind = Enroll\<rparr>)
      (Some (PathSegment userX None None))))))"

definition esc1Edge :: Relationship where
  "esc1Edge = \<lparr>RelID = 900, StartID = 2, EndID = 50, RelKind = ADCSESC1\<rparr>"

definition compositionDatabase :: "PathSegment list \<Rightarrow> Database" where
  "compositionDatabase path2Terminals =
     \<lparr>ReadFetchNode = (\<lambda>i. if i = 2 then Inr userX else Inl ErrNotFound),
      ReadAuthUsersAndEveryoneGroups = Inr [authUsers, everyone],
      TraversalBreadthFirst = (\<lambda>pattern root.
         if ID root = 2
         then (if length pattern = 6 then Inr [path1Segment] else Inr path2Terminals)
         else Inr []),
      NodeSetSlice = (\<lambda>_ nodes. nodes)\<rparr>"

section \<open>Post-processing readers (post.go)\<close>

text \<open>
  A transaction is known through the results of the queries these functions send. Each
  field is one query of the source and holds what the store answered: the fetched nodes or
  identifiers, or the error. A node set is read through its slice.
\<close>

record Transaction =
  AuthUsersAndEveryoneGroups :: "Node list"
  FetchStartNodes :: "Kind \<Rightarrow> Node \<Rightarrow> error + Node list"
  FetchOutboundTrustDomains :: "Node \<Rightarrow> error + Node list"
  FetchTrustAccountNodes :: "string \<Rightarrow> string \<Rightarrow> error + Node list"
  FetchLAPSComputerIDs :: "string \<Rightarrow> error + uint64 list"
  FirstLocalGroupBySIDSuffix :: "uint64 \<Rightarrow> string \<Rightarrow> error + Relationship"
  FirstLocalGroupByName :: "uint64 \<Rightarrow> string \<Rightarrow> error + Relationship"
  FetchNode :: "uint64 \<Rightarrow> error + Node"
  FirstNodeByID :: "uint64 \<Rightarrow> error + Node"
  FetchLocalGroupMembers :: "uint64 \<Rightarrow> error + Node list"
  FetchRemoteInteractiveLogonRightHolders :: "uint64 \<Rightarrow> error + Node list"
  FirstRemoteInteractiveLogonRight :: "uint64 \<Rightarrow> uint64 \<Rightarrow> error + Relationship"
  FetchLocalGroupMemberTriples :: "uint64 \<Rightarrow> uint64 list \<times> error option"

definition IsErrNotFound :: "error \<Rightarrow> bool" where
  "IsErrNotFound err = (err = ErrNotFound)"

subsection \<open>PostHasTrustKeys: the reader\<close>

definition getDirectOutboundTrustDomains :: "Transaction \<Rightarrow> Node \<Rightarrow> error + Node list" where
  "getDirectOutboundTrustDomains tx domain = FetchOutboundTrustDomains tx domain"

definition getTrustAccount :: "Transaction \<Rightarrow> string \<Rightarrow> string \<Rightarrow> error + Node" where
  "getTrustAccount tx domainSid netbios =
     (case FetchTrustAccountNodes tx domainSid (netbios @ ''$'') of
        Inl err \<Rightarrow> Inl err
      | Inr nodes \<Rightarrow>
          if length nodes = 0 then Inl ErrNoResultsFound else Inr (nodes ! 0))"

fun hasTrustKeysTrusting :: "Transaction \<Rightarrow> Node \<Rightarrow> string \<Rightarrow> Node list
    \<Rightarrow> CreatePostRelationshipJob list \<Rightarrow> CreatePostRelationshipJob list" where
  "hasTrustKeysTrusting tx domain netbios [] outC = outC"
| "hasTrustKeysTrusting tx domain netbios (trustingDomain # rest) outC =
     (case PropertyString trustingDomain DomainSID of
        Inl err \<Rightarrow> hasTrustKeysTrusting tx domain netbios rest outC
      | Inr trustingDomainSid \<Rightarrow>
          case getTrustAccount tx trustingDomainSid netbios of
            Inl err \<Rightarrow> hasTrustKeysTrusting tx domain netbios rest outC
          | Inr trustAccount \<Rightarrow>
              hasTrustKeysTrusting tx domain netbios rest
                (outC @ [\<lparr>FromID = ID domain, ToID = ID trustAccount, Kind = HasTrustKeys\<rparr>]))"

fun hasTrustKeysDomains :: "Transaction \<Rightarrow> Node list \<Rightarrow> CreatePostRelationshipJob list
    \<Rightarrow> CreatePostRelationshipJob list" where
  "hasTrustKeysDomains tx [] outC = outC"
| "hasTrustKeysDomains tx (domain # rest) outC =
     (case PropertyString domain NetBIOS of
        Inl err \<Rightarrow> hasTrustKeysDomains tx rest outC
      | Inr netbios \<Rightarrow>
          case getDirectOutboundTrustDomains tx domain of
            Inl err \<Rightarrow> hasTrustKeysDomains tx rest outC
          | Inr trustingDomains \<Rightarrow>
              hasTrustKeysDomains tx rest
                (hasTrustKeysTrusting tx domain netbios trustingDomains outC))"

definition PostHasTrustKeys_reader :: "Node list \<Rightarrow> Transaction \<Rightarrow> CreatePostRelationshipJob list
    \<Rightarrow> CreatePostRelationshipJob list \<times> error option" where
  "PostHasTrustKeys_reader domainNodes tx outC = (hasTrustKeysDomains tx domainNodes outC, None)"

subsection \<open>PostSyncLAPSPassword: the reader\<close>

definition getLAPSSyncers :: "((uint64 \<times> uint64) list \<Rightarrow> uint64 list) \<Rightarrow> Transaction \<Rightarrow> Node
    \<Rightarrow> PathAggregator \<Rightarrow> error + bitmap64" where
  "getLAPSSyncers sortSlice tx domain groupExpansions =
     (case FetchStartNodes tx GetChanges domain of
        Inl err \<Rightarrow> Inl err
      | Inr getChangesNodes \<Rightarrow>
          case FetchStartNodes tx GetChangesInFilteredSet domain of
            Inl err \<Rightarrow> Inl err
          | Inr getChangesFilteredNodes \<Rightarrow>
              Inr (CalculateCrossProductNodeSets sortSlice (AuthUsersAndEveryoneGroups tx)
                     groupExpansions [getChangesNodes, getChangesFilteredNodes]))"

definition getLAPSComputersForDomain :: "Transaction \<Rightarrow> Node \<Rightarrow> error + uint64 list" where
  "getLAPSComputersForDomain tx domain =
     (case PropertyString domain DomainSID of
        Inl err \<Rightarrow> Inl err
      | Inr domainSid \<Rightarrow> FetchLAPSComputerIDs tx domainSid)"

fun submitSyncers :: "uint64 list \<Rightarrow> uint64 \<Rightarrow> CreatePostRelationshipJob list
    \<Rightarrow> CreatePostRelationshipJob list" where
  "submitSyncers [] computer outC = outC"
| "submitSyncers (value # rest) computer outC =
     submitSyncers rest computer
       (outC @ [\<lparr>FromID = value, ToID = computer, Kind = SyncLAPSPassword\<rparr>])"

fun submitComputers :: "uint64 list \<Rightarrow> bitmap64 \<Rightarrow> CreatePostRelationshipJob list
    \<Rightarrow> CreatePostRelationshipJob list" where
  "submitComputers [] lapsSyncers outC = outC"
| "submitComputers (computer # rest) lapsSyncers outC =
     submitComputers rest lapsSyncers (submitSyncers (Each lapsSyncers) computer outC)"

definition PostSyncLAPSPassword_reader :: "((uint64 \<times> uint64) list \<Rightarrow> uint64 list) \<Rightarrow> PathAggregator
    \<Rightarrow> Node \<Rightarrow> Transaction \<Rightarrow> CreatePostRelationshipJob list
    \<Rightarrow> CreatePostRelationshipJob list \<times> error option" where
  "PostSyncLAPSPassword_reader sortSlice groupExpansions innerDomain tx outC =
     (case getLAPSSyncers sortSlice tx innerDomain groupExpansions of
        Inl err \<Rightarrow> (outC, Some err)
      | Inr lapsSyncers \<Rightarrow>
          if Cardinality lapsSyncers = 0 then (outC, None)
          else
            case getLAPSComputersForDomain tx innerDomain of
              Inl err \<Rightarrow> (outC, Some err)
            | Inr computers \<Rightarrow> (submitComputers computers lapsSyncers outC, None))"

subsection \<open>The CanRDP reader's bitmap (FetchCanRDPEntityBitmapForComputer)\<close>

text \<open>
  In this path the source asserts the dynamic type of what the aggregator's
  \<^verbatim>\<open>Cardinality\<close> returns, so the aggregator is taken with that type visible: a provider is a
  duplex (a Reachability Set) or a simplex (a provider that only counts). The unchecked assertion
  \<^verbatim>\<open>x.(cardinality.Duplex[uint64])\<close> panics on a simplex.
\<close>

datatype Provider = DuplexProvider bitmap64 | SimplexProvider

type_synonym ProviderAggregator = "uint64 \<Rightarrow> Provider"

definition RemoteDesktopUsersSIDSuffix :: string where
  "RemoteDesktopUsersSIDSuffix = ''-555''"

definition FetchComputerLocalGroupBySIDSuffix :: "Transaction \<Rightarrow> uint64 \<Rightarrow> string \<Rightarrow> error + Node" where
  "FetchComputerLocalGroupBySIDSuffix tx computer groupSuffix =
     (case FirstLocalGroupBySIDSuffix tx computer groupSuffix of
        Inl err \<Rightarrow> Inl err
      | Inr rel \<Rightarrow> FetchNode tx (StartID rel))"

definition FetchComputerLocalGroupByName :: "Transaction \<Rightarrow> uint64 \<Rightarrow> string \<Rightarrow> error + Node" where
  "FetchComputerLocalGroupByName tx computer groupName =
     (case FirstLocalGroupByName tx computer groupName of
        Inl err \<Rightarrow> Inl err
      | Inr rel \<Rightarrow> FetchNode tx (StartID rel))"

definition FetchLocalGroupMembership :: "Transaction \<Rightarrow> uint64 \<Rightarrow> string \<Rightarrow> error + Node list" where
  "FetchLocalGroupMembership tx computer groupSuffix =
     (case FetchComputerLocalGroupBySIDSuffix tx computer groupSuffix of
        Inl err \<Rightarrow> Inl err
      | Inr localGroup \<Rightarrow> FetchLocalGroupMembers tx (ID localGroup))"

definition FetchRemoteInteractiveLogonRightEntities :: "Transaction \<Rightarrow> uint64 \<Rightarrow> error + Node list" where
  "FetchRemoteInteractiveLogonRightEntities tx computerId =
     FetchRemoteInteractiveLogonRightHolders tx computerId"

definition HasRemoteInteractiveLogonRight :: "Transaction \<Rightarrow> uint64 \<Rightarrow> uint64 \<Rightarrow> bool" where
  "HasRemoteInteractiveLogonRight tx groupId computerId =
     (case FirstRemoteInteractiveLogonRight tx groupId computerId of
        Inl err \<Rightarrow> False
      | Inr rel \<Rightarrow> True)"

definition FetchLocalGroupBitmapForComputer :: "Transaction \<Rightarrow> uint64 \<Rightarrow> string \<Rightarrow> error + bitmap64" where
  "FetchLocalGroupBitmapForComputer tx computer suffix =
     (case FetchLocalGroupMembership tx computer suffix of
        Inl err \<Rightarrow> if IsErrNotFound err then Inr {} else Inl err
      | Inr members \<Rightarrow> Inr (ID ` set members))"

definition ComputerHasURACollection :: "Transaction \<Rightarrow> uint64 \<Rightarrow> bool" where
  "ComputerHasURACollection tx computerID =
     (case FirstNodeByID tx computerID of
        Inl err \<Rightarrow> False
      | Inr computer \<Rightarrow>
          case PropertyBool computer HasURA of
            Inl err \<Rightarrow> False
          | Inr ura \<Rightarrow> ura)"

fun rilEntities :: "ProviderAggregator \<Rightarrow> bitmap64 \<Rightarrow> Node list \<Rightarrow> bitmap64 \<times> bitmap64
    \<Rightarrow> (bitmap64 \<times> bitmap64) outcome" where
  "rilEntities localGroupExpansions rdpLocalGroupMembers [] (rdpEntities, secondaryTargets) =
     Returns (rdpEntities, secondaryTargets)"
| "rilEntities localGroupExpansions rdpLocalGroupMembers (entity # rest) (rdpEntities, secondaryTargets) =
     (if ID entity \<in> rdpLocalGroupMembers
      then rilEntities localGroupExpansions rdpLocalGroupMembers rest
             (insert (ID entity) rdpEntities, secondaryTargets)
      else if ContainsOneOf (Kinds entity) [Group, LocalGroup]
      then
        case localGroupExpansions (ID entity) of
          SimplexProvider \<Rightarrow> Panics
        | DuplexProvider members \<Rightarrow>
            rilEntities localGroupExpansions rdpLocalGroupMembers rest
              (rdpEntities, secondaryTargets \<union> members)
      else rilEntities localGroupExpansions rdpLocalGroupMembers rest (rdpEntities, secondaryTargets))"

fun secondaryEntities :: "bitmap64 \<Rightarrow> uint64 list \<Rightarrow> bitmap64 \<Rightarrow> bitmap64" where
  "secondaryEntities rdpLocalGroupMembers [] rdpEntities = rdpEntities"
| "secondaryEntities rdpLocalGroupMembers (entity # rest) rdpEntities =
     (if entity \<in> rdpLocalGroupMembers
      then secondaryEntities rdpLocalGroupMembers rest (insert entity rdpEntities)
      else secondaryEntities rdpLocalGroupMembers rest rdpEntities)"

definition ProcessRDPWithUra :: "Transaction \<Rightarrow> Node \<Rightarrow> uint64 \<Rightarrow> ProviderAggregator
    \<Rightarrow> (error + bitmap64) outcome" where
  "ProcessRDPWithUra tx rdpLocalGroup computer localGroupExpansions =
     (case localGroupExpansions (ID rdpLocalGroup) of
        SimplexProvider \<Rightarrow> Panics
      | DuplexProvider rdpLocalGroupMembers \<Rightarrow>
          if HasRemoteInteractiveLogonRight tx (ID rdpLocalGroup) computer
          then
            case FetchLocalGroupMemberTriples tx (ID rdpLocalGroup) of
              (startIDs, Some err) \<Rightarrow> Returns (Inl err)
            | (startIDs, None) \<Rightarrow> Returns (Inr (set startIDs))
          else
            case FetchRemoteInteractiveLogonRightEntities tx computer of
              Inl err \<Rightarrow> Returns (Inl err)
            | Inr baseRilEntities \<Rightarrow>
                case rilEntities localGroupExpansions rdpLocalGroupMembers baseRilEntities ({}, {}) of
                  Panics \<Rightarrow> Panics
                | Returns (rdpEntities, secondaryTargets) \<Rightarrow>
                    Returns (Inr (secondaryEntities rdpLocalGroupMembers
                                    (Each secondaryTargets) rdpEntities)))"

definition FetchRemoteDesktopUsersBitmapForComputer :: "Transaction \<Rightarrow> uint64 \<Rightarrow> ProviderAggregator
    \<Rightarrow> bool \<Rightarrow> (error + bitmap64) outcome" where
  "FetchRemoteDesktopUsersBitmapForComputer tx computer localGroupExpansions enforceURA =
     (case FetchComputerLocalGroupBySIDSuffix tx computer RemoteDesktopUsersSIDSuffix of
        Inl err \<Rightarrow> if IsErrNotFound err then Returns (Inr {}) else Returns (Inl err)
      | Inr rdpLocalGroup \<Rightarrow>
          if enforceURA \<or> ComputerHasURACollection tx computer
          then ProcessRDPWithUra tx rdpLocalGroup computer localGroupExpansions
          else
            case FetchLocalGroupBitmapForComputer tx computer RemoteDesktopUsersSIDSuffix of
              Inl err \<Rightarrow> Returns (Inl err)
            | Inr bitmap \<Rightarrow> Returns (Inr bitmap))"

definition FetchCanRDPEntityBitmapForComputer :: "Transaction \<Rightarrow> uint64 \<Rightarrow> ProviderAggregator
    \<Rightarrow> bool \<Rightarrow> bool \<Rightarrow> (error + bitmap64) outcome" where
  "FetchCanRDPEntityBitmapForComputer tx computer localGroupExpansions enforceURA citrixEnabled =
     (case FetchRemoteDesktopUsersBitmapForComputer tx computer localGroupExpansions enforceURA of
        Panics \<Rightarrow> Panics
      | Returns (Inl err) \<Rightarrow> Returns (Inl err)
      | Returns (Inr remoteDesktopUsers) \<Rightarrow>
          if Cardinality remoteDesktopUsers = 0 \<or> \<not> citrixEnabled
          then Returns (Inr remoteDesktopUsers)
          else
            case FetchComputerLocalGroupByName tx computer ''Direct Access Users'' of
              Inl err \<Rightarrow>
                if IsErrNotFound err then Returns (Inr remoteDesktopUsers) else Returns (Inl err)
            | Inr directAccessUsersGroup \<Rightarrow>
                case localGroupExpansions (ID directAccessUsersGroup) of
                  SimplexProvider \<Rightarrow> Returns (Inl TypeAssertionFailed)
                | DuplexProvider dauGroupMembers \<Rightarrow>
                    Returns (Inr (dauGroupMembers \<inter> remoteDesktopUsers)))"

subsection \<open>Concrete transactions for evaluated runs\<close>

definition emptyTransaction :: Transaction where
  "emptyTransaction =
     \<lparr>AuthUsersAndEveryoneGroups = [authUsers, everyone],
      FetchStartNodes = (\<lambda>_ _. Inr []),
      FetchOutboundTrustDomains = (\<lambda>_. Inr []),
      FetchTrustAccountNodes = (\<lambda>_ _. Inr []),
      FetchLAPSComputerIDs = (\<lambda>_. Inr []),
      FirstLocalGroupBySIDSuffix = (\<lambda>_ _. Inl ErrNotFound),
      FirstLocalGroupByName = (\<lambda>_ _. Inl ErrNotFound),
      FetchNode = (\<lambda>_. Inl ErrNotFound),
      FirstNodeByID = (\<lambda>_. Inl ErrNotFound),
      FetchLocalGroupMembers = (\<lambda>_. Inr []),
      FetchRemoteInteractiveLogonRightHolders = (\<lambda>_. Inr []),
      FirstRemoteInteractiveLogonRight = (\<lambda>_ _. Inl ErrNotFound),
      FetchLocalGroupMemberTriples = (\<lambda>_. ([], None))\<rparr>"

text \<open>
  A collected domain (50) with no DomainSID property; UserX holds GetChanges and
  GetChangesInFilteredSet on it.
\<close>

definition domainNoSID :: Node where
  "domainNoSID = \<lparr>ID = 50, Kinds = [Entity, Domain], Properties =
     [Name \<mapsto> StringValue ''CORP.LOCAL'', NetBIOS \<mapsto> StringValue ''CORP'']\<rparr>"

definition lapsTransaction :: Transaction where
  "lapsTransaction = emptyTransaction\<lparr>FetchStartNodes := (\<lambda>_ _. Inr [userX])\<rparr>"

text \<open>
  Two domains for the trust-key reader: CORP (51) trusts and is trusted; the domain 52 has no
  NetBIOS property; the trusting domain 53 has no DomainSID property, the trusting domain 54
  has one and its trust account (60) is known.
\<close>

definition domainCorp :: Node where
  "domainCorp = \<lparr>ID = 51, Kinds = [Entity, Domain], Properties =
     [NetBIOS \<mapsto> StringValue ''CORP'', DomainSID \<mapsto> StringValue ''S-1-5-21-1'']\<rparr>"

definition domainNoNetBIOS :: Node where
  "domainNoNetBIOS = \<lparr>ID = 52, Kinds = [Entity, Domain], Properties =
     [DomainSID \<mapsto> StringValue ''S-1-5-21-2'']\<rparr>"

definition trustingNoSID :: Node where
  "trustingNoSID = \<lparr>ID = 53, Kinds = [Entity, Domain], Properties = Map.empty\<rparr>"

definition trustingPartner :: Node where
  "trustingPartner = \<lparr>ID = 54, Kinds = [Entity, Domain], Properties =
     [DomainSID \<mapsto> StringValue ''S-1-5-21-4'']\<rparr>"

definition trustAccount1 :: Node where
  "trustAccount1 = \<lparr>ID = 60, Kinds = [Entity, User], Properties = Map.empty\<rparr>"

definition trustTransaction :: Transaction where
  "trustTransaction = emptyTransaction
     \<lparr>FetchOutboundTrustDomains := (\<lambda>_. Inr [trustingNoSID, trustingPartner]),
      FetchTrustAccountNodes := (\<lambda>sid name.
         if sid = ''S-1-5-21-4'' \<and> name = ''CORP$'' then Inr [trustAccount1] else Inr [])\<rparr>"

text \<open>
  A computer (70) whose Remote Desktop Users local group (71) is found, with an aggregator
  that answers with a simplex provider.
\<close>

definition rdpGroup :: Node where
  "rdpGroup = \<lparr>ID = 71, Kinds = [Entity, LocalGroup], Properties = Map.empty\<rparr>"

definition rdpTransaction :: Transaction where
  "rdpTransaction = emptyTransaction
     \<lparr>FirstLocalGroupBySIDSuffix :=
        (\<lambda>_ _. Inr \<lparr>RelID = 700, StartID = 71, EndID = 70, RelKind = MemberOfLocalGroup\<rparr>),
      FirstLocalGroupByName :=
        (\<lambda>_ _. Inr \<lparr>RelID = 701, StartID = 71, EndID = 70, RelKind = MemberOfLocalGroup\<rparr>),
      FetchNode := (\<lambda>_. Inr rdpGroup),
      FetchLocalGroupMembers := (\<lambda>_. Inr [userX])\<rparr>"

definition simplexExpansions :: ProviderAggregator where
  "simplexExpansions = (\<lambda>_. SimplexProvider)"

section \<open>Group membership resolution (membership.go)\<close>

subsection \<open>Segments, the store and the traversal query\<close>

text \<open>
  An ID segment links a node identifier and the identifier of its incoming edge to the
  segment it descends from; the root segment has neither edge nor trunk. \<^verbatim>\<open>Descend\<close> hangs
  a new segment under a segment. A triple result carries the identifiers of a relationship;
  the relationship record stands for it.
\<close>

datatype IDSegment =
  IDSegment (SegID: uint64) (SegEdgeID: "uint64 option") (IDTrunk: "IDSegment option")







subsection \<open>The path aggregator\<close>







subsection \<open>ResolveAllGroupMemberships\<close>









subsection \<open>The three-group cycle\<close>






text \<open>
  The nodes a run descended into: the identifiers of the expanded segments that hang under
  another segment.
\<close>

definition descents :: "IDSegment list \<Rightarrow> uint64 list" where
  "descents segments = map SegID (filter (\<lambda>s. IDTrunk s \<noteq> None) segments)"

section \<open>Properties of the cross-product calculator\<close>

subsection \<open>The loops as set operations\<close>

lemma set_Each: "set (Each s) = s"
  by (simp add: Each_def)

lemma unrollSlice_eq:
  "unrollSlice ge sl (fd, un) = (fd \<union> firstDegreeOf sl, un \<union> unrolledOf ge sl)"
  by (induction sl arbitrary: fd un) (auto simp: firstDegreeOf_def unrolledOf_def Let_def)

lemma hasSpecialGroup_iff:
  "hasSpecialGroup sg un \<longleftrightarrow> ID ` set sg \<inter> un \<noteq> {}"
  by (induction sg) auto

lemma unrollAll_eq:
  "unrollAll sg ge sls (fds, uns) =
     (fds @ map firstDegreeOf (filter (sentinelFree sg ge) sls),
      uns @ map (unrolledOf ge) (filter (sentinelFree sg ge) sls))"
  by (induction sls arbitrary: fds uns)
     (simp_all add: unrollSlice_eq hasSpecialGroup_iff sentinelFree_def)

lemma fold_insert_ID: "fold (\<lambda>entity r. insert (ID entity) r) sl r = r \<union> firstDegreeOf sl"
  by (induction sl arbitrary: r) (auto simp: firstDegreeOf_def)

lemma addAllEntities_eq:
  "addAllEntities sls r = r \<union> (\<Union>sl \<in> set sls. firstDegreeOf sl)"
  by (induction sls arbitrary: r) (auto simp: fold_insert_ID)

lemma checkFirstDegree_eq:
  "checkFirstDegree ge c xs (r, u) =
     (r \<union> (set xs \<inter> c), u \<union> (\<Union>i \<in> set xs - c. ge i))"
  by (induction xs arbitrary: r u) auto

lemma addRemainder_eq: "addRemainder c xs r = r \<union> (set xs \<inter> c)"
  by (induction xs arbitrary: r) auto

lemma fold_Int_eq: "fold (\<lambda>unrolledSet c. c \<inter> unrolledSet) uns c0 = c0 \<inter> \<Inter> (set uns)"
  by (induction uns arbitrary: c0) auto

subsection \<open>Invariants of the group loop\<close>

lemma foldGroups_checked:
  "foldGroups ge c ks (r, u) = (r', u') \<Longrightarrow> r \<subseteq> r' \<and> r' \<subseteq> r \<union> c"
  by (induction ks arbitrary: r u) (auto split: if_splits)

lemma covered_step:
  "e \<in> u \<or> covered ge r e \<Longrightarrow>
     e \<in> Xor (u - {k}) (ge k) \<or> covered ge (insert k r) e"
  unfolding covered_def Xor_def by blast

lemma foldGroups_cover:
  "foldGroups ge c ks (r, u) = (r', u') \<Longrightarrow> e \<in> c \<Longrightarrow> e \<in> u \<or> covered ge r e \<Longrightarrow>
     e \<in> u' \<or> covered ge r' e"
proof (induction ks arbitrary: r u)
  case Nil
  then show ?case by simp
next
  case (Cons k ks)
  show ?case
  proof (cases "k \<in> u")
    case False
    with Cons.prems have "foldGroups ge c ks (r, u) = (r', u')" by simp
    from Cons.IH [OF this Cons.prems(2) Cons.prems(3)] show ?thesis .
  next
    case inU: True
    show ?thesis
    proof (cases "k \<in> c")
      case True
      with inU Cons.prems(1)
      have step: "foldGroups ge c ks (insert k r, Xor (u - {k}) (ge k)) = (r', u')" by simp
      from Cons.IH [OF step Cons.prems(2) covered_step [OF Cons.prems(3)]] show ?thesis .
    next
      case False
      with inU Cons.prems(1)
      have step: "foldGroups ge c ks (r, u - {k}) = (r', u')" by simp
      have "e \<noteq> k" using False Cons.prems(2) by blast
      with Cons.prems(3) have "e \<in> u - {k} \<or> covered ge r e" by blast
      from Cons.IH [OF step Cons.prems(2) this] show ?thesis .
    qed
  qed
qed

lemma Xor_within: "u \<subseteq> d \<Longrightarrow> t \<subseteq> d \<Longrightarrow> Xor (u - {k}) t \<subseteq> d"
  unfolding Xor_def by blast

lemma foldGroups_within:
  "foldGroups ge c ks (r, u) = (r', u') \<Longrightarrow> (\<And>g. g \<in> d \<Longrightarrow> ge g \<subseteq> d) \<Longrightarrow>
     u \<subseteq> d \<Longrightarrow> r \<subseteq> d \<Longrightarrow> u' \<subseteq> d \<and> r' \<subseteq> d"
proof (induction ks arbitrary: r u)
  case Nil
  then show ?case by simp
next
  case (Cons k ks)
  show ?case
  proof (cases "k \<in> u")
    case False
    with Cons.prems(1) have "foldGroups ge c ks (r, u) = (r', u')" by simp
    from Cons.IH [OF this Cons.prems(2) Cons.prems(3) Cons.prems(4)] show ?thesis .
  next
    case inU: True
    then have kd: "k \<in> d" using Cons.prems(3) by blast
    show ?thesis
    proof (cases "k \<in> c")
      case True
      with inU Cons.prems(1)
      have step: "foldGroups ge c ks (insert k r, Xor (u - {k}) (ge k)) = (r', u')" by simp
      have u2: "Xor (u - {k}) (ge k) \<subseteq> d"
        by (rule Xor_within [OF Cons.prems(3) Cons.prems(2) [OF kd]])
      have r2: "insert k r \<subseteq> d" using kd Cons.prems(4) by blast
      from Cons.IH [OF step Cons.prems(2) u2 r2] show ?thesis .
    next
      case False
      with inU Cons.prems(1)
      have step: "foldGroups ge c ks (r, u - {k}) = (r', u')" by simp
      have u2: "u - {k} \<subseteq> d" using Cons.prems(3) by blast
      from Cons.IH [OF step Cons.prems(2) u2 Cons.prems(4)] show ?thesis .
    qed
  qed
qed

subsection \<open>The result in the restrictive case, in one equation\<close>

lemma crossProduct_restrictive_unfold:
  assumes free: "filter (sentinelFree sg ge) nodeSlices = s0 # s1 # rest"
  shows "\<exists>r' u'.
     foldGroups ge (\<Inter>sl \<in> set (s1 # rest). unrolledOf ge sl)
        (sortSlice (buildTempMap ge
           (Each (\<Union>i \<in> firstDegreeOf s0 - (\<Inter>sl \<in> set (s1 # rest). unrolledOf ge sl). ge i)) []))
        (firstDegreeOf s0 \<inter> (\<Inter>sl \<in> set (s1 # rest). unrolledOf ge sl),
         \<Union>i \<in> firstDegreeOf s0 - (\<Inter>sl \<in> set (s1 # rest). unrolledOf ge sl). ge i) = (r', u') \<and>
     CalculateCrossProductNodeSets sortSlice sg ge nodeSlices =
       r' \<union> (u' \<inter> (\<Inter>sl \<in> set (s1 # rest). unrolledOf ge sl))"
proof -
  have len: "\<not> length nodeSlices < 2"
  proof
    assume "length nodeSlices < 2"
    moreover have "length (filter (sentinelFree sg ge) nodeSlices) \<le> length nodeSlices"
      by (rule length_filter_le)
    ultimately show False using free by simp
  qed
  have cs: "fold (\<lambda>unrolledSet c. c \<inter> unrolledSet) (map (unrolledOf ge) rest) (unrolledOf ge s1)
      = (\<Inter>sl \<in> set (s1 # rest). unrolledOf ge sl)"
    by (simp add: fold_Int_eq)
  obtain r' u' where fg:
    "foldGroups ge (\<Inter>sl \<in> set (s1 # rest). unrolledOf ge sl)
        (sortSlice (buildTempMap ge
           (Each (\<Union>i \<in> firstDegreeOf s0 - (\<Inter>sl \<in> set (s1 # rest). unrolledOf ge sl). ge i)) []))
        (firstDegreeOf s0 \<inter> (\<Inter>sl \<in> set (s1 # rest). unrolledOf ge sl),
         \<Union>i \<in> firstDegreeOf s0 - (\<Inter>sl \<in> set (s1 # rest). unrolledOf ge sl). ge i) = (r', u')"
    by (cases "foldGroups ge (\<Inter>sl \<in> set (s1 # rest). unrolledOf ge sl)
        (sortSlice (buildTempMap ge
           (Each (\<Union>i \<in> firstDegreeOf s0 - (\<Inter>sl \<in> set (s1 # rest). unrolledOf ge sl). ge i)) []))
        (firstDegreeOf s0 \<inter> (\<Inter>sl \<in> set (s1 # rest). unrolledOf ge sl),
         \<Union>i \<in> firstDegreeOf s0 - (\<Inter>sl \<in> set (s1 # rest). unrolledOf ge sl). ge i)") blast
  have "CalculateCrossProductNodeSets sortSlice sg ge nodeSlices =
       r' \<union> (u' \<inter> (\<Inter>sl \<in> set (s1 # rest). unrolledOf ge sl))"
    unfolding CalculateCrossProductNodeSets_def
    using len fg
    by (simp add: unrollAll_eq free cs checkFirstDegree_eq set_Each addRemainder_eq
          del: INT_simps Inter_insert INT_insert)
  with fg show ?thesis by blast
qed

lemma covered_mono: "covered ge r e \<Longrightarrow> r \<subseteq> r2 \<Longrightarrow> covered ge r2 e"
  unfolding covered_def by blast

lemma unrolledOf_cases:
  "e \<in> unrolledOf ge sl \<Longrightarrow>
     e \<in> firstDegreeOf sl \<or>
     (\<exists>n \<in> set sl. ContainsOneOf (Kinds n) [Group, LocalGroup] \<and> e \<in> ge (ID n))"
  unfolding unrolledOf_def firstDegreeOf_def by (auto split: if_splits)

lemma firstDegreeOf_subset_unrolledOf: "firstDegreeOf sl \<subseteq> unrolledOf ge sl"
  unfolding unrolledOf_def firstDegreeOf_def by auto

lemma expansion_subset_unrolledOf:
  "n \<in> set sl \<Longrightarrow> ContainsOneOf (Kinds n) [Group, LocalGroup] \<Longrightarrow> ge (ID n) \<subseteq> unrolledOf ge sl"
  unfolding unrolledOf_def by auto

lemma foldGroups_empty: "foldGroups ge c ks (r, {}) = (r, {})"
  by (induction ks) auto

lemma crossProduct_restrictive_parts:
  assumes free: "filter (sentinelFree specialGroups ge) nodeSlices = s0 # s1 # rest"
  shows
    "\<And>e. e \<in> unrolledOf ge s0 \<Longrightarrow> e \<in> (\<Inter>sl \<in> set (s1 # rest). unrolledOf ge sl) \<Longrightarrow>
          covered ge (CalculateCrossProductNodeSets sortSlice specialGroups ge nodeSlices) e"
    and "CalculateCrossProductNodeSets sortSlice specialGroups ge nodeSlices
        \<subseteq> (\<Inter>sl \<in> set (s1 # rest). unrolledOf ge sl)"
    and "(\<forall>g h. g \<in> ge h \<longrightarrow> ge g \<subseteq> ge h) \<Longrightarrow>
         (\<forall>n \<in> set s0. \<not> ContainsOneOf (Kinds n) [Group, LocalGroup] \<longrightarrow> ge (ID n) = {}) \<Longrightarrow>
        CalculateCrossProductNodeSets sortSlice specialGroups ge nodeSlices \<subseteq> unrolledOf ge s0"
    and "firstDegreeOf s0 \<subseteq> (\<Inter>sl \<in> set (s1 # rest). unrolledOf ge sl) \<Longrightarrow>
        CalculateCrossProductNodeSets sortSlice specialGroups ge nodeSlices = firstDegreeOf s0"
proof -
  define c where "c = (\<Inter>sl \<in> set (s1 # rest). unrolledOf ge sl)"
  define u0 where "u0 = (\<Union>i \<in> firstDegreeOf s0 - c. ge i)"
  define r0 where "r0 = firstDegreeOf s0 \<inter> c"
  define R where "R = CalculateCrossProductNodeSets sortSlice specialGroups ge nodeSlices"
  from crossProduct_restrictive_unfold [OF free, of sortSlice]
  obtain r' u' where
    fg: "foldGroups ge c (sortSlice (buildTempMap ge (Each u0) [])) (r0, u0) = (r', u')"
    and res: "R = r' \<union> (u' \<inter> c)"
    unfolding c_def u0_def r0_def R_def by blast
  have r'_sub: "r0 \<subseteq> r'" "r' \<subseteq> r0 \<union> c"
    using foldGroups_checked [OF fg] by blast+
  show R_c: "R \<subseteq> c"
    using r'_sub res r0_def by blast
  show "covered ge R e" if e0: "e \<in> unrolledOf ge s0" and ec: "e \<in> c" for e
  proof -
    have start: "e \<in> u0 \<or> covered ge r0 e"
    proof -
      from unrolledOf_cases [OF e0] show ?thesis
      proof
        assume "e \<in> firstDegreeOf s0"
        with ec have "e \<in> r0" by (simp add: r0_def)
        then show ?thesis by (simp add: covered_def)
      next
        assume "\<exists>n \<in> set s0. ContainsOneOf (Kinds n) [Group, LocalGroup] \<and> e \<in> ge (ID n)"
        then obtain n where n: "n \<in> set s0" "e \<in> ge (ID n)" by blast
        then have nf: "ID n \<in> firstDegreeOf s0" by (simp add: firstDegreeOf_def)
        show ?thesis
        proof (cases "ID n \<in> c")
          case True
          with nf have "ID n \<in> r0" by (simp add: r0_def)
          with n(2) show ?thesis unfolding covered_def by blast
        next
          case False
          with nf n(2) have "e \<in> u0" unfolding u0_def by blast
          then show ?thesis by simp
        qed
      qed
    qed
    from foldGroups_cover [OF fg ec start] show ?thesis
    proof
      assume "e \<in> u'"
      with ec res show ?thesis by (simp add: covered_def)
    next
      assume "covered ge r' e"
      then show ?thesis by (rule covered_mono) (simp add: res)
    qed
  qed
  show "R \<subseteq> unrolledOf ge s0"
    if closed: "\<forall>g h. g \<in> ge h \<longrightarrow> ge g \<subseteq> ge h"
      and plain: "\<forall>n \<in> set s0. \<not> ContainsOneOf (Kinds n) [Group, LocalGroup] \<longrightarrow> ge (ID n) = {}"
  proof -
    define d where "d = unrolledOf ge s0"
    have first: "ge (ID n) \<subseteq> d" if "n \<in> set s0" for n
    proof (cases "ContainsOneOf (Kinds n) [Group, LocalGroup]")
      case True
      with that show ?thesis unfolding d_def by (rule expansion_subset_unrolledOf)
    next
      case False
      with that plain have "ge (ID n) = {}" by blast
      then show ?thesis by simp
    qed
    have dclosed: "ge k \<subseteq> d" if "k \<in> d" for k
    proof -
      from that unrolledOf_cases [of k ge s0]
      consider "k \<in> firstDegreeOf s0"
        | n where "n \<in> set s0" "k \<in> ge (ID n)"
        unfolding d_def by blast
      then show ?thesis
      proof cases
        case 1
        then obtain n where "n \<in> set s0" "k = ID n" unfolding firstDegreeOf_def by blast
        with first show ?thesis by blast
      next
        case 2
        with closed have "ge k \<subseteq> ge (ID n)" by blast
        with first [OF 2(1)] show ?thesis by blast
      qed
    qed
    have u0d: "u0 \<subseteq> d"
    proof
      fix e assume "e \<in> u0"
      then obtain i where "i \<in> firstDegreeOf s0" "e \<in> ge i" unfolding u0_def by blast
      then obtain n where "n \<in> set s0" "e \<in> ge (ID n)" unfolding firstDegreeOf_def by blast
      with first show "e \<in> d" by blast
    qed
    have r0d: "r0 \<subseteq> d"
      using firstDegreeOf_subset_unrolledOf [of s0 ge] unfolding r0_def d_def by blast
    from foldGroups_within [OF fg dclosed u0d r0d]
    have "u' \<subseteq> d" "r' \<subseteq> d" by blast+
    with res show "R \<subseteq> d" by blast
  qed
  show "R = firstDegreeOf s0" if all: "firstDegreeOf s0 \<subseteq> c"
  proof -
    from all have "u0 = {}" "r0 = firstDegreeOf s0" unfolding u0_def r0_def by blast+
    with fg have "foldGroups ge c (sortSlice (buildTempMap ge (Each u0) [])) (firstDegreeOf s0, {}) = (r', u')"
      by simp
    then have "r' = firstDegreeOf s0 \<and> u' = {}" by (simp add: foldGroups_empty)
    with res show ?thesis by simp
  qed
qed

lemma crossProduct_group_and_member:
  assumes free: "filter (sentinelFree specialGroups ge) nodeSlices = [[g], [x]]"
    and grp: "ContainsOneOf (Kinds g) [Group, LocalGroup]"
    and mem: "ID x \<in> ge (ID g)" and leaf: "ge (ID x) = {}"
  shows "CalculateCrossProductNodeSets sortSlice specialGroups ge nodeSlices = {ID x}"
proof -
  define R where "R = CalculateCrossProductNodeSets sortSlice specialGroups ge nodeSlices"
  have cx: "(\<Inter>sl \<in> set ([x] # []). unrolledOf ge sl) = {ID x}"
    using leaf by (auto simp: unrolledOf_def split: if_splits)
  have "ID x \<in> unrolledOf ge [g]" using grp mem by (auto simp: unrolledOf_def)
  moreover have "ID x \<in> (\<Inter>sl \<in> set ([x] # []). unrolledOf ge sl)"
    unfolding cx by simp
  ultimately have "covered ge R (ID x)"
    unfolding R_def by (rule crossProduct_restrictive_parts(1) [OF free])
  moreover from crossProduct_restrictive_parts(2) [OF free, of sortSlice] cx
  have sub: "R \<subseteq> {ID x}" unfolding R_def by simp
  ultimately have "ID x \<in> R" using leaf unfolding covered_def by blast
  with sub show ?thesis unfolding R_def by blast
qed

lemma crossProduct_same_group:
  assumes free: "filter (sentinelFree specialGroups ge) nodeSlices = [[g], [g]]"
  shows "CalculateCrossProductNodeSets sortSlice specialGroups ge nodeSlices = {ID g}"
proof -
  have "firstDegreeOf [g] \<subseteq> (\<Inter>sl \<in> set ([g] # []). unrolledOf ge sl)"
    by (simp add: firstDegreeOf_def unrolledOf_def)
  from crossProduct_restrictive_parts(4) [OF free this]
  show ?thesis by (simp add: firstDegreeOf_def)
qed


subsection \<open>Two or more sentinel-free slices\<close>





subsection \<open>Sentinel groups in every slice, or in all but one\<close>

text \<open>
  Claim C2. Given two or more slices: when the unrolled set of every slice contains a
  sentinel group, the result is the union of the first-degree sets of all slices; when
  exactly one slice is free of them, the result is the first-degree set of that slice.
\<close>

theorem CalculateCrossProductNodeSets_sentinels:
  assumes two: "2 \<le> length nodeSlices"
  shows
    "((\<forall>sl \<in> set nodeSlices. \<not> sentinelFree specialGroups ge sl) \<longrightarrow>
        CalculateCrossProductNodeSets sortSlice specialGroups ge nodeSlices
          = (\<Union>sl \<in> set nodeSlices. firstDegreeOf sl)) \<and>
     (\<forall>s. filter (sentinelFree specialGroups ge) nodeSlices = [s] \<longrightarrow>
        CalculateCrossProductNodeSets sortSlice specialGroups ge nodeSlices = firstDegreeOf s)"
proof (intro conjI allI impI)
  assume "\<forall>sl \<in> set nodeSlices. \<not> sentinelFree specialGroups ge sl"
  then have none: "filter (sentinelFree specialGroups ge) nodeSlices = []"
    by (simp add: filter_empty_conv)
  from two have "\<not> length nodeSlices < 2" by simp
  then show "CalculateCrossProductNodeSets sortSlice specialGroups ge nodeSlices
          = (\<Union>sl \<in> set nodeSlices. firstDegreeOf sl)"
    unfolding CalculateCrossProductNodeSets_def
    by (simp add: unrollAll_eq none addAllEntities_eq)
next
  fix s
  assume one: "filter (sentinelFree specialGroups ge) nodeSlices = [s]"
  from two have "\<not> length nodeSlices < 2" by simp
  then show "CalculateCrossProductNodeSets sortSlice specialGroups ge nodeSlices = firstDegreeOf s"
    unfolding CalculateCrossProductNodeSets_def
    by (simp add: unrollAll_eq one)
qed

theorem CalculateCrossProductNodeSets_sentinels_witness:
  "CalculateCrossProductNodeSets keysAscending [authUsers, everyone] expansionsG
     [[authUsers], [everyone, userY]] = {3, 11, 12} \<and>
   CalculateCrossProductNodeSets keysAscending [authUsers, everyone] expansionsG
     [[userX], [authUsers]] = {2}"
proof -
  have all: "\<forall>sl \<in> set [[authUsers], [everyone, userY]].
      \<not> sentinelFree [authUsers, everyone] expansionsG sl"
    by (simp add: sentinelFree_def unrolledOf_def ContainsOneOf_def userY_def
          authUsers_def everyone_def expansionsG_def)
  have one: "filter (sentinelFree [authUsers, everyone] expansionsG) [[userX], [authUsers]]
      = [[userX]]"
    by (simp add: sentinelFree_def unrolledOf_def ContainsOneOf_def userX_def
          authUsers_def everyone_def expansionsG_def)
  have a: "CalculateCrossProductNodeSets keysAscending [authUsers, everyone] expansionsG
     [[authUsers], [everyone, userY]]
       = (\<Union>sl \<in> set [[authUsers], [everyone, userY]]. firstDegreeOf sl)"
    using CalculateCrossProductNodeSets_sentinels
      [of "[[authUsers], [everyone, userY]]" "[authUsers, everyone]" expansionsG keysAscending] all
    by simp
  have b: "CalculateCrossProductNodeSets keysAscending [authUsers, everyone] expansionsG
     [[userX], [authUsers]] = firstDegreeOf [userX]"
    using CalculateCrossProductNodeSets_sentinels
      [of "[[userX], [authUsers]]" "[authUsers, everyone]" expansionsG keysAscending] one
    by simp
  from a b show ?thesis
    by (auto simp: firstDegreeOf_def userX_def userY_def authUsers_def everyone_def)
qed

subsection \<open>Fewer than two slices\<close>

text \<open>
  Claim C10. With no slice or a single slice the function returns the empty Reachability
  Set, whatever the slice, the sentinel groups and the aggregator hold. The model is a total
  function with a set as its value: no error is returned and nothing is emitted.
\<close>

theorem CalculateCrossProductNodeSets_fewer_than_two:
  "length nodeSlices < 2 \<Longrightarrow>
     CalculateCrossProductNodeSets sortSlice specialGroups ge nodeSlices = {}"
  by (simp add: CalculateCrossProductNodeSets_def)

theorem CalculateCrossProductNodeSets_fewer_than_two_witness:
  "CalculateCrossProductNodeSets keysAscending [authUsers, everyone] expansionsG [] = {} \<and>
   CalculateCrossProductNodeSets keysAscending [authUsers, everyone] expansionsG
     [[groupG, userX, authUsers]] = {}"
  using CalculateCrossProductNodeSets_fewer_than_two
      [of "[]" keysAscending "[authUsers, everyone]" expansionsG]
    CalculateCrossProductNodeSets_fewer_than_two
      [of "[[groupG, userX, authUsers]]" keysAscending "[authUsers, everyone]" expansionsG]
  by simp


section \<open>Properties of the ESC1 deriver\<close>

subsection \<open>The validity test\<close>

lemma isCertTemplateValidForEsc1_readable:
  assumes "Properties ct RequiresManagerApproval = Some (BoolValue rma)"
    and "Properties ct AuthenticationEnabled = Some (BoolValue ae)"
    and "Properties ct EnrolleeSuppliesSubject = Some (BoolValue ess)"
    and "Properties ct SchemaVersion = Some (NumberValue sv)"
    and "Properties ct AuthorizedSignatures = Some (NumberValue a)"
  shows "isCertTemplateValidForEsc1 ct =
     Inr (\<not> rma \<and> ae \<and> ess \<and> \<not> (f64_gt sv (Finite 1) \<and> f64_gt a (Finite 0)))"
  using assms
  by (simp add: isCertTemplateValidForEsc1_def PropertyBool_def PropertyFloat64_def)

lemma f64_not_gt_one: "sv \<noteq> NaN \<Longrightarrow> \<not> f64_gt sv (Finite 1) \<longleftrightarrow> f64_le sv (Finite 1)"
  by (cases sv) auto

lemma f64_not_gt_zero: "f64_le (Finite 0) a \<Longrightarrow> \<not> f64_gt a (Finite 0) \<longleftrightarrow> a = Finite 0"
  by (cases a) auto

lemma isCertTemplateValidForEsc1_true:
  assumes "isCertTemplateValidForEsc1 ct = Inr True"
  shows "\<exists>sv a. Properties ct RequiresManagerApproval = Some (BoolValue False) \<and>
     Properties ct AuthenticationEnabled = Some (BoolValue True) \<and>
     Properties ct EnrolleeSuppliesSubject = Some (BoolValue True) \<and>
     Properties ct SchemaVersion = Some (NumberValue sv) \<and>
     Properties ct AuthorizedSignatures = Some (NumberValue a) \<and>
     \<not> (f64_gt sv (Finite 1) \<and> f64_gt a (Finite 0))"
proof -
  from assms obtain rma where 1: "PropertyBool ct RequiresManagerApproval = Inr rma"
    unfolding isCertTemplateValidForEsc1_def by (auto split: sum.splits)
  with assms have rma: "\<not> rma"
    unfolding isCertTemplateValidForEsc1_def by (auto split: if_splits)
  with assms 1 obtain ae where 2: "PropertyBool ct AuthenticationEnabled = Inr ae"
    unfolding isCertTemplateValidForEsc1_def by (auto split: sum.splits)
  with assms 1 rma have ae: "ae"
    unfolding isCertTemplateValidForEsc1_def by (auto split: if_splits)
  with assms 1 2 rma obtain ess where 3: "PropertyBool ct EnrolleeSuppliesSubject = Inr ess"
    unfolding isCertTemplateValidForEsc1_def by (auto split: sum.splits)
  with assms 1 2 rma ae have ess: "ess"
    unfolding isCertTemplateValidForEsc1_def by (auto split: if_splits)
  with assms 1 2 3 rma ae obtain sv where 4: "PropertyFloat64 ct SchemaVersion = Inr sv"
    unfolding isCertTemplateValidForEsc1_def by (auto split: sum.splits)
  with assms 1 2 3 rma ae ess obtain a where 5: "PropertyFloat64 ct AuthorizedSignatures = Inr a"
    unfolding isCertTemplateValidForEsc1_def by (auto split: sum.splits)
  with assms 1 2 3 4 rma ae ess have 6: "\<not> (f64_gt sv (Finite 1) \<and> f64_gt a (Finite 0))"
    unfolding isCertTemplateValidForEsc1_def by (auto split: if_splits)
  from 1 rma have "Properties ct RequiresManagerApproval = Some (BoolValue False)"
    by (auto simp: PropertyBool_def split: option.splits PropertyValue.splits)
  moreover from 2 ae have "Properties ct AuthenticationEnabled = Some (BoolValue True)"
    by (auto simp: PropertyBool_def split: option.splits PropertyValue.splits)
  moreover from 3 ess have "Properties ct EnrolleeSuppliesSubject = Some (BoolValue True)"
    by (auto simp: PropertyBool_def split: option.splits PropertyValue.splits)
  moreover from 4 have "Properties ct SchemaVersion = Some (NumberValue sv)"
    by (auto simp: PropertyFloat64_def split: option.splits PropertyValue.splits)
  moreover from 5 have "Properties ct AuthorizedSignatures = Some (NumberValue a)"
    by (auto simp: PropertyFloat64_def split: option.splits PropertyValue.splits)
  ultimately show ?thesis using 6 by blast
qed

lemma templateStep_matches:
  assumes "ADCSESC1Path1Pattern domainID ! 1 = Outbound c" and "matches c rel ct"
  shows "esc1ValidityPredicate ct \<and> ContainsOneOf (Kinds ct) [CertTemplate] \<and>
         RelKind rel \<in> {GenericAll, Enroll, AllExtendedRights}"
proof -
  from assms(1) have c: "c = And
        [RelationshipKindIn [GenericAll, Enroll, AllExtendedRights],
         EndKindIn [CertTemplate],
         Or [And [EndPropertyEquals RequiresManagerApproval (BoolValue False),
                  EndPropertyGreaterThan SchemaVersion (Finite 1),
                  EndPropertyEquals AuthorizedSignatures (NumberValue (Finite 0)),
                  EndPropertyEquals AuthenticationEnabled (BoolValue True),
                  EndPropertyEquals EnrolleeSuppliesSubject (BoolValue True)],
             And [EndPropertyEquals RequiresManagerApproval (BoolValue False),
                  EndPropertyEquals SchemaVersion (NumberValue (Finite 1)),
                  EndPropertyEquals AuthenticationEnabled (BoolValue True),
                  EndPropertyEquals EnrolleeSuppliesSubject (BoolValue True)]]]"
    by (simp add: ADCSESC1Path1Pattern_def)
  from assms(2) show ?thesis
    unfolding c esc1ValidityPredicate_def
    by (auto split: option.splits PropertyValue.splits)
qed

text \<open>
  Claim C3, as the code has it. For a template whose five properties are present with
  their types, whose schema version is not NaN and whose authorized-signature count is a
  non-negative number, the validity test returns no error and accepts exactly when the
  specification's predicate holds. The test accepts no template that lacks one of the five
  properties or holds one with another type (it returns the property error, or rejects on
  an earlier property). Every edge that the template step of the Path-1 pattern matches
  ends in a CertTemplate that satisfies the predicate.
\<close>

theorem isCertTemplateValidForEsc1_predicate:
  "(Properties ct RequiresManagerApproval = Some (BoolValue rma) \<and>
    Properties ct AuthenticationEnabled = Some (BoolValue ae) \<and>
    Properties ct EnrolleeSuppliesSubject = Some (BoolValue ess) \<and>
    Properties ct SchemaVersion = Some (NumberValue sv) \<and> sv \<noteq> NaN \<and>
    Properties ct AuthorizedSignatures = Some (NumberValue a) \<and> f64_le (Finite 0) a \<longrightarrow>
      isCertTemplateValidForEsc1 ct = Inr (esc1ValidityPredicate ct)) \<and>
   (isCertTemplateValidForEsc1 ct = Inr True \<longrightarrow>
      (\<exists>b1 b2 b3 v1 v2.
         Properties ct RequiresManagerApproval = Some (BoolValue b1) \<and>
         Properties ct AuthenticationEnabled = Some (BoolValue b2) \<and>
         Properties ct EnrolleeSuppliesSubject = Some (BoolValue b3) \<and>
         Properties ct SchemaVersion = Some (NumberValue v1) \<and>
         Properties ct AuthorizedSignatures = Some (NumberValue v2))) \<and>
   (ADCSESC1Path1Pattern domainID ! 1 = Outbound c \<and> matches c rel ct \<longrightarrow>
      esc1ValidityPredicate ct \<and> ContainsOneOf (Kinds ct) [CertTemplate])"
proof (intro conjI impI)
  assume h: "Properties ct RequiresManagerApproval = Some (BoolValue rma) \<and>
    Properties ct AuthenticationEnabled = Some (BoolValue ae) \<and>
    Properties ct EnrolleeSuppliesSubject = Some (BoolValue ess) \<and>
    Properties ct SchemaVersion = Some (NumberValue sv) \<and> sv \<noteq> NaN \<and>
    Properties ct AuthorizedSignatures = Some (NumberValue a) \<and> f64_le (Finite 0) a"
  then have code: "isCertTemplateValidForEsc1 ct =
     Inr (\<not> rma \<and> ae \<and> ess \<and> \<not> (f64_gt sv (Finite 1) \<and> f64_gt a (Finite 0)))"
    by (intro isCertTemplateValidForEsc1_readable) simp_all
  from h have sv: "\<not> f64_gt sv (Finite 1) \<longleftrightarrow> f64_le sv (Finite 1)"
    by (intro f64_not_gt_one) simp
  from h have a: "\<not> f64_gt a (Finite 0) \<longleftrightarrow> a = Finite 0"
    by (intro f64_not_gt_zero) simp
  from h have "esc1ValidityPredicate ct \<longleftrightarrow>
      \<not> rma \<and> ae \<and> ess \<and> (f64_le sv (Finite 1) \<or> (f64_gt sv (Finite 1) \<and> a = Finite 0))"
    by (simp add: esc1ValidityPredicate_def)
  with code sv a show "isCertTemplateValidForEsc1 ct = Inr (esc1ValidityPredicate ct)"
    by auto
next
  assume "isCertTemplateValidForEsc1 ct = Inr True"
  from isCertTemplateValidForEsc1_true [OF this]
  show "\<exists>b1 b2 b3 v1 v2.
         Properties ct RequiresManagerApproval = Some (BoolValue b1) \<and>
         Properties ct AuthenticationEnabled = Some (BoolValue b2) \<and>
         Properties ct EnrolleeSuppliesSubject = Some (BoolValue b3) \<and>
         Properties ct SchemaVersion = Some (NumberValue v1) \<and>
         Properties ct AuthorizedSignatures = Some (NumberValue v2)"
    by blast
next
  assume "ADCSESC1Path1Pattern domainID ! 1 = Outbound c \<and> matches c rel ct"
  then show "esc1ValidityPredicate ct" using templateStep_matches by blast
next
  assume "ADCSESC1Path1Pattern domainID ! 1 = Outbound c \<and> matches c rel ct"
  then show "ContainsOneOf (Kinds ct) [CertTemplate]" using templateStep_matches by blast
qed

theorem isCertTemplateValidForEsc1_predicate_witness:
  "isCertTemplateValidForEsc1 certTemplate1 = Inr True \<and> esc1ValidityPredicate certTemplate1"
proof -
  have h: "Properties certTemplate1 RequiresManagerApproval = Some (BoolValue False) \<and>
    Properties certTemplate1 AuthenticationEnabled = Some (BoolValue True) \<and>
    Properties certTemplate1 EnrolleeSuppliesSubject = Some (BoolValue True) \<and>
    Properties certTemplate1 SchemaVersion = Some (NumberValue (Finite 2)) \<and> Finite 2 \<noteq> NaN \<and>
    Properties certTemplate1 AuthorizedSignatures = Some (NumberValue (Finite 0)) \<and>
    f64_le (Finite 0) (Finite 0)"
    by (simp add: certTemplate1_def)
  have m: "ADCSESC1Path1Pattern 50 ! 1 = Outbound (case ADCSESC1Path1Pattern 50 ! 1 of
        Outbound c \<Rightarrow> c | OutboundWithDepth _ _ c \<Rightarrow> c) \<and>
      matches (case ADCSESC1Path1Pattern 50 ! 1 of
        Outbound c \<Rightarrow> c | OutboundWithDepth _ _ c \<Rightarrow> c)
        \<lparr>RelID = 200, StartID = 1, EndID = 20, RelKind = Enroll\<rparr> certTemplate1"
    by (simp add: ADCSESC1Path1Pattern_def certTemplate1_def ContainsOneOf_def)
  from isCertTemplateValidForEsc1_predicate
    [of certTemplate1 False True True "Finite 2" "Finite 0" 50 _
      "\<lparr>RelID = 200, StartID = 1, EndID = 20, RelKind = Enroll\<rparr>"] h m
  show ?thesis by simp
qed

text \<open>
  The claim as the specification words it fails on two templates. One has schema version 1
  and no authorized-signatures property: the predicate holds, the test returns the property
  error. The other has schema version 2 and a negative authorized-signature count: the
  predicate fails, the test accepts.
\<close>

theorem isCertTemplateValidForEsc1_predicate_counterexample:
  "esc1ValidityPredicate templateNoSignatures \<and>
   isCertTemplateValidForEsc1 templateNoSignatures = Inl (PropertyError AuthorizedSignatures) \<and>
   \<not> esc1ValidityPredicate templateNegativeSignatures \<and>
   isCertTemplateValidForEsc1 templateNegativeSignatures = Inr True"
  by (simp add: isCertTemplateValidForEsc1_def PropertyBool_def PropertyFloat64_def
        esc1ValidityPredicate_def templateNoSignatures_def templateNegativeSignatures_def)

subsection \<open>The deriver\<close>

lemma esc1Results_eq:
  "esc1Results sortSlice sg eg cache ecaEnrollers cts results =
     results \<union> (\<Union>ct \<in> {ct \<in> set cts. isCertTemplateValidForEsc1 ct = Inr True}.
        CalculateCrossProductNodeSets sortSlice sg eg
          [GetCertTemplateEnrollers cache (ID ct), ecaEnrollers])"
proof (induction cts arbitrary: results)
  case Nil
  then show ?case by simp
next
  case (Cons ct cts)
  show ?case
  proof (cases "isCertTemplateValidForEsc1 ct")
    case (Inl err)
    with Cons show ?thesis by auto
  next
    case (Inr valid)
    with Cons show ?thesis by (cases valid) auto
  qed
qed

lemma submitDomains_eq:
  "submitDomains kind v ds outC = outC @ map (\<lambda>d. \<lparr>FromID = v, ToID = ID d, Kind = kind\<rparr>) ds"
  by (induction ds arbitrary: outC) auto

lemma submitResults_eq:
  "submitResults kind vs ds outC =
     outC @ concat (map (\<lambda>v. map (\<lambda>d. \<lparr>FromID = v, ToID = ID d, Kind = kind\<rparr>) ds) vs)"
  by (induction vs arbitrary: outC) (auto simp: submitDomains_eq)

lemma PostADCSESC1_eq:
  assumes "GetPublishedTemplateCache cache (ID enterpriseCA) \<noteq> []"
  shows "PostADCSESC1 sortSlice sg outC eg enterpriseCA targetDomains cache =
     (outC @ concat (map (\<lambda>p. map (\<lambda>d. \<lparr>FromID = p, ToID = ID d, Kind = ADCSESC1\<rparr>) targetDomains)
                  (sorted_list_of_set (esc1Principals sortSlice sg eg enterpriseCA cache))),
      None)"
  using assms
  by (simp add: PostADCSESC1_def esc1Results_eq submitResults_eq esc1Principals_def Each_def Let_def)

lemma distinct_jobs:
  assumes "distinct ps" and "distinct (map ID ds)"
  shows "distinct (concat (map (\<lambda>p. map (\<lambda>d. \<lparr>FromID = p, ToID = ID d, Kind = k\<rparr>) ds) ps))"
proof -
  have inner: "distinct (map (\<lambda>d. \<lparr>FromID = p, ToID = ID d, Kind = k\<rparr>) ds)" for p
    using assms(2) by (induction ds) auto
  from assms(1) show ?thesis
  proof (induction ps)
    case Nil
    then show ?case by simp
  next
    case (Cons p ps)
    then show ?case by (auto simp: inner)
  qed
qed

lemma esc1Principals_single:
  assumes "GetPublishedTemplateCache cache (ID enterpriseCA) = [ct]"
    and "isCertTemplateValidForEsc1 ct = Inr True"
  shows "esc1Principals sortSlice sg eg enterpriseCA cache =
     CalculateCrossProductNodeSets sortSlice sg eg
       [GetCertTemplateEnrollers cache (ID ct), GetEnterpriseCAEnrollers cache (ID enterpriseCA)]"
  using assms by (auto simp: esc1Principals_def)

text \<open>
  Claim C4, as the code has it. For an EnterpriseCA with a non-empty published-template
  cache, \<open>PostADCSESC1\<close> returns nil and appends to the channel exactly one job
  \<open>(principal, domain, ADCSESC1)\<close> for every principal of \<open>esc1Principals\<close> (in ascending order)
  and every target domain; the jobs are pairwise distinct when the target domains are.
  On the minimal graph (one template that passes the validity test, with a Group as its
  enroller, and one target domain) the job emitted depends on who may enroll at the
  EnterpriseCA: with the User (a member of the Group, with no expansion of its own) as the
  enroller there, it is the one job \<open>(User, Domain, ADCSESC1)\<close>; with the Group itself as the
  enroller there, it is the one job \<open>(Group, Domain, ADCSESC1)\<close>.
\<close>

theorem PostADCSESC1_jobs:
  assumes published: "GetPublishedTemplateCache cache (ID enterpriseCA) \<noteq> []"
  shows
    "PostADCSESC1 sortSlice sg outC eg enterpriseCA targetDomains cache =
       (outC @ concat (map (\<lambda>p. map (\<lambda>d. \<lparr>FromID = p, ToID = ID d, Kind = ADCSESC1\<rparr>) targetDomains)
                    (sorted_list_of_set (esc1Principals sortSlice sg eg enterpriseCA cache))),
        None) \<and>
     (distinct (map ID targetDomains) \<longrightarrow>
        distinct (concat (map (\<lambda>p. map (\<lambda>d. \<lparr>FromID = p, ToID = ID d, Kind = ADCSESC1\<rparr>) targetDomains)
                    (sorted_list_of_set (esc1Principals sortSlice sg eg enterpriseCA cache))))) \<and>
     (GetPublishedTemplateCache cache (ID enterpriseCA) = [ct] \<and>
      isCertTemplateValidForEsc1 ct = Inr True \<and>
      GetCertTemplateEnrollers cache (ID ct) = [g] \<and>
      GetEnterpriseCAEnrollers cache (ID enterpriseCA) = [u] \<and>
      sentinelFree sg eg [g] \<and> sentinelFree sg eg [u] \<and>
      ContainsOneOf (Kinds g) [Group, LocalGroup] \<and> ID u \<in> eg (ID g) \<and> eg (ID u) = {} \<and>
      targetDomains = [d] \<longrightarrow>
        PostADCSESC1 sortSlice sg outC eg enterpriseCA targetDomains cache =
          (outC @ [\<lparr>FromID = ID u, ToID = ID d, Kind = ADCSESC1\<rparr>], None)) \<and>
     (GetPublishedTemplateCache cache (ID enterpriseCA) = [ct] \<and>
      isCertTemplateValidForEsc1 ct = Inr True \<and>
      GetCertTemplateEnrollers cache (ID ct) = [g] \<and>
      GetEnterpriseCAEnrollers cache (ID enterpriseCA) = [g] \<and>
      sentinelFree sg eg [g] \<and> targetDomains = [d] \<longrightarrow>
        PostADCSESC1 sortSlice sg outC eg enterpriseCA targetDomains cache =
          (outC @ [\<lparr>FromID = ID g, ToID = ID d, Kind = ADCSESC1\<rparr>], None))"
proof (intro conjI impI)
  show "PostADCSESC1 sortSlice sg outC eg enterpriseCA targetDomains cache =
       (outC @ concat (map (\<lambda>p. map (\<lambda>d. \<lparr>FromID = p, ToID = ID d, Kind = ADCSESC1\<rparr>) targetDomains)
                    (sorted_list_of_set (esc1Principals sortSlice sg eg enterpriseCA cache))),
        None)"
    by (rule PostADCSESC1_eq [OF published])
next
  assume "distinct (map ID targetDomains)"
  then show "distinct (concat (map (\<lambda>p. map (\<lambda>d. \<lparr>FromID = p, ToID = ID d, Kind = ADCSESC1\<rparr>) targetDomains)
                    (sorted_list_of_set (esc1Principals sortSlice sg eg enterpriseCA cache))))"
    by (intro distinct_jobs) simp_all
next
  assume h: "GetPublishedTemplateCache cache (ID enterpriseCA) = [ct] \<and>
      isCertTemplateValidForEsc1 ct = Inr True \<and>
      GetCertTemplateEnrollers cache (ID ct) = [g] \<and>
      GetEnterpriseCAEnrollers cache (ID enterpriseCA) = [u] \<and>
      sentinelFree sg eg [g] \<and> sentinelFree sg eg [u] \<and>
      ContainsOneOf (Kinds g) [Group, LocalGroup] \<and> ID u \<in> eg (ID g) \<and> eg (ID u) = {} \<and>
      targetDomains = [d]"
  then have free: "filter (sentinelFree sg eg) [[g], [u]] = [[g], [u]]" by simp
  from h have "esc1Principals sortSlice sg eg enterpriseCA cache =
      CalculateCrossProductNodeSets sortSlice sg eg [[g], [u]]"
    by (simp add: esc1Principals_single)
  also from h have "\<dots> = {ID u}"
    by (intro crossProduct_group_and_member [OF free]) simp_all
  finally have p: "esc1Principals sortSlice sg eg enterpriseCA cache = {ID u}" .
  from h show "PostADCSESC1 sortSlice sg outC eg enterpriseCA targetDomains cache =
          (outC @ [\<lparr>FromID = ID u, ToID = ID d, Kind = ADCSESC1\<rparr>], None)"
    by (simp add: PostADCSESC1_eq [OF published] p)
next
  assume h: "GetPublishedTemplateCache cache (ID enterpriseCA) = [ct] \<and>
      isCertTemplateValidForEsc1 ct = Inr True \<and>
      GetCertTemplateEnrollers cache (ID ct) = [g] \<and>
      GetEnterpriseCAEnrollers cache (ID enterpriseCA) = [g] \<and>
      sentinelFree sg eg [g] \<and> targetDomains = [d]"
  then have free: "filter (sentinelFree sg eg) [[g], [g]] = [[g], [g]]" by simp
  from h have "esc1Principals sortSlice sg eg enterpriseCA cache =
      CalculateCrossProductNodeSets sortSlice sg eg [[g], [g]]"
    by (simp add: esc1Principals_single)
  also have "\<dots> = {ID g}"
    by (rule crossProduct_same_group [OF free])
  finally have p: "esc1Principals sortSlice sg eg enterpriseCA cache = {ID g}" .
  from h show "PostADCSESC1 sortSlice sg outC eg enterpriseCA targetDomains cache =
          (outC @ [\<lparr>FromID = ID g, ToID = ID d, Kind = ADCSESC1\<rparr>], None)"
    by (simp add: PostADCSESC1_eq [OF published] p)
qed

theorem PostADCSESC1_jobs_witness:
  "PostADCSESC1 keysAscending [authUsers, everyone] [] expansionsG enterpriseCA1 [domain1]
     (minimalCache [userX]) = ([\<lparr>FromID = 2, ToID = 50, Kind = ADCSESC1\<rparr>], None)"
proof -
  have published: "GetPublishedTemplateCache (minimalCache [userX]) (ID enterpriseCA1) \<noteq> []"
    by (simp add: minimalCache_def enterpriseCA1_def)
  have h: "GetPublishedTemplateCache (minimalCache [userX]) (ID enterpriseCA1) = [certTemplate1] \<and>
      isCertTemplateValidForEsc1 certTemplate1 = Inr True \<and>
      GetCertTemplateEnrollers (minimalCache [userX]) (ID certTemplate1) = [groupG] \<and>
      GetEnterpriseCAEnrollers (minimalCache [userX]) (ID enterpriseCA1) = [userX] \<and>
      sentinelFree [authUsers, everyone] expansionsG [groupG] \<and>
      sentinelFree [authUsers, everyone] expansionsG [userX] \<and>
      ContainsOneOf (Kinds groupG) [Group, LocalGroup] \<and>
      ID userX \<in> expansionsG (ID groupG) \<and> expansionsG (ID userX) = {} \<and>
      [domain1] = [domain1]"
    by (simp add: minimalCache_def enterpriseCA1_def certTemplate1_def groupG_def userX_def
          authUsers_def everyone_def expansionsG_def sentinelFree_def unrolledOf_def
          ContainsOneOf_def isCertTemplateValidForEsc1_def PropertyBool_def PropertyFloat64_def)
  from PostADCSESC1_jobs [OF published, of keysAscending "[authUsers, everyone]" "[]" expansionsG
      "[domain1]" certTemplate1 groupG userX domain1] h
  have "PostADCSESC1 keysAscending [authUsers, everyone] [] expansionsG enterpriseCA1 [domain1]
     (minimalCache [userX]) = ([] @ [\<lparr>FromID = ID userX, ToID = ID domain1, Kind = ADCSESC1\<rparr>], None)"
    by blast
  then show ?thesis by (simp add: userX_def domain1_def)
qed

text \<open>
  The claim as the specification words it fails on the minimal graph it describes. With no
  enroller at the EnterpriseCA (the description names none) nothing is emitted; with the
  Group as the enroller there the one job is \<open>(Group, Domain, ADCSESC1)\<close>. Neither run emits
  \<open>(User, Domain, ADCSESC1)\<close>.
\<close>

theorem PostADCSESC1_jobs_counterexample:
  "PostADCSESC1 keysAscending [authUsers, everyone] [] expansionsG enterpriseCA1 [domain1]
     (minimalCache []) = ([], None) \<and>
   PostADCSESC1 keysAscending [authUsers, everyone] [] expansionsG enterpriseCA1 [domain1]
     (minimalCache [groupG]) = ([\<lparr>FromID = 1, ToID = 50, Kind = ADCSESC1\<rparr>], None) \<and>
   PostADCSESC1 keysAscending [authUsers, everyone] [] expansionsG enterpriseCA1 [domain1]
     (minimalCache [groupG]) \<noteq> ([\<lparr>FromID = 2, ToID = 50, Kind = ADCSESC1\<rparr>], None)"
  by code_simp


section \<open>Properties of the ADCSESC1 edge composition\<close>

lemma forTerminals_filed:
  assumes "\<forall>t \<in> set ts. locate t \<noteq> None"
  shows "forTerminals (\<lambda>t. fileSegment (locate t) t) ts (cs, cas) =
     Returns (\<lambda>c. cs c @ filter (\<lambda>t. caID locate t = c) ts, cas \<union> caID locate ` set ts)"
  using assms
proof (induction ts arbitrary: cs cas)
  case Nil
  then show ?case by simp
next
  case (Cons t ts)
  then obtain ca where ca: "locate t = Some ca" by auto
  have rest: "\<forall>t \<in> set ts. locate t \<noteq> None" using Cons.prems by simp
  have step: "fileSegment (locate t) t (cs, cas) =
      Returns (cs(ID ca := cs (ID ca) @ [t]), insert (ID ca) cas)"
    by (simp add: fileSegment_def ca)
  have key: "caID locate t = ID ca" by (simp add: caID_def ca)
  show ?case
    by (simp add: step Cons.IH [OF rest]) (auto simp: key fun_eq_iff)
qed

lemma discovered_Cons:
  "discovered bf (n # roots) =
     (case bf n of Inl err \<Rightarrow> [] | Inr terminals \<Rightarrow> terminals) @ discovered bf roots"
  by (simp add: discovered_def)

lemma forStartNodes_filed:
  assumes "\<forall>n \<in> set roots. succeeds (bf n)"
    and "\<forall>t \<in> set (discovered bf roots). locate t \<noteq> None"
  shows "forStartNodes bf (\<lambda>t. fileSegment (locate t) t) roots (cs, cas) =
     Returns (Inr (\<lambda>c. cs c @ filter (\<lambda>t. caID locate t = c) (discovered bf roots),
                   cas \<union> caID locate ` set (discovered bf roots)))"
  using assms
proof (induction roots arbitrary: cs cas)
  case Nil
  then show ?case by (simp add: discovered_def)
next
  case (Cons n roots)
  from Cons.prems(1) obtain ts where ts: "bf n = Inr ts"
    by (cases "bf n") (auto simp: succeeds_def)
  have d: "discovered bf (n # roots) = ts @ discovered bf roots"
    by (simp add: discovered_Cons ts)
  have here: "\<forall>t \<in> set ts. locate t \<noteq> None" using Cons.prems(2) d by simp
  have rest1: "\<forall>n \<in> set roots. succeeds (bf n)" using Cons.prems(1) by simp
  have rest2: "\<forall>t \<in> set (discovered bf roots). locate t \<noteq> None" using Cons.prems(2) d by simp
  show ?case
    by (simp add: ts forTerminals_filed [OF here] Cons.IH [OF rest1 rest2] d Un_assoc image_Un)
qed

lemma renderPaths_eq:
  "renderPaths cs ids paths = paths @ concat (map (\<lambda>c. map SegmentPath (cs c)) ids)"
  by (induction ids arbitrary: paths) auto

lemma mset_filter_disjoint:
  "(\<And>x. \<not> (P x \<and> Q x)) \<Longrightarrow>
     mset (filter (\<lambda>x. P x \<or> Q x) xs) = mset (filter P xs) + mset (filter Q xs)"
  by (induction xs) auto

lemma mset_by_key:
  assumes "distinct ks"
  shows "mset (concat (map (\<lambda>c. map g (filter (\<lambda>t. f1 t = c) xs @ filter (\<lambda>t. f2 t = c) ys)) ks)) =
     mset (map g (filter (\<lambda>t. f1 t \<in> set ks) xs @ filter (\<lambda>t. f2 t \<in> set ks) ys))"
  using assms
proof (induction ks)
  case Nil
  then show ?case by simp
next
  case (Cons k ks)
  then have k: "k \<notin> set ks" and dks: "distinct ks" by simp_all
  have x: "mset (filter (\<lambda>t. f1 t = k \<or> f1 t \<in> set ks) xs) =
      mset (filter (\<lambda>t. f1 t = k) xs) + mset (filter (\<lambda>t. f1 t \<in> set ks) xs)"
    by (rule mset_filter_disjoint) (use k in auto)
  have y: "mset (filter (\<lambda>t. f2 t = k \<or> f2 t \<in> set ks) ys) =
      mset (filter (\<lambda>t. f2 t = k) ys) + mset (filter (\<lambda>t. f2 t \<in> set ks) ys)"
    by (rule mset_filter_disjoint) (use k in auto)
  have "mset (map g (filter (\<lambda>t. f1 t \<in> set (k # ks)) xs @ filter (\<lambda>t. f2 t \<in> set (k # ks)) ys)) =
      image_mset g (mset (filter (\<lambda>t. f1 t = k \<or> f1 t \<in> set ks) xs)
        + mset (filter (\<lambda>t. f2 t = k \<or> f2 t \<in> set ks) ys))"
    by simp
  also have "\<dots> = image_mset g (mset (filter (\<lambda>t. f1 t = k) xs) + mset (filter (\<lambda>t. f2 t = k) ys))
      + image_mset g (mset (filter (\<lambda>t. f1 t \<in> set ks) xs) + mset (filter (\<lambda>t. f2 t \<in> set ks) ys))"
    unfolding x y by (simp add: ac_simps)
  also have "\<dots> = mset (map g (filter (\<lambda>t. f1 t = k) xs @ filter (\<lambda>t. f2 t = k) ys))
      + mset (map g (filter (\<lambda>t. f1 t \<in> set ks) xs @ filter (\<lambda>t. f2 t \<in> set ks) ys))"
    by simp
  finally show ?case using Cons.IH [OF dks] by simp
qed

lemma path1Terminal_eq: "path1Terminal = (\<lambda>t. fileSegment (path1CA t) t)"
  by (intro ext) (simp add: path1Terminal_def)

lemma path2Terminal_eq: "path2Terminal = (\<lambda>t. fileSegment (path2CA t) t)"
  by (intro ext) (simp add: path2Terminal_def)

lemma GetADCSESC1EdgeComposition_eq:
  assumes start: "ReadFetchNode db (StartID edge) = Inr startNode"
    and groups: "ReadAuthUsersAndEveryoneGroups db = Inr nodeSet"
    and startNodes: "startNodes = NodeSet_Add (NodeSet_AddSet [] nodeSet) startNode"
    and found1: "found1 = discovered (TraversalBreadthFirst db (ADCSESC1Path1Pattern (EndID edge)))
                   (NodeSetSlice db Path1Loop startNodes)"
    and cas1: "cas1 = caID path1CA ` set found1"
    and found2: "found2 = discovered (TraversalBreadthFirst db (ADCSESC1Path2Pattern (EndID edge) cas1))
                   (NodeSetSlice db Path2Loop startNodes)"
    and cas2: "cas2 = caID path2CA ` set found2"
    and ok1: "\<forall>n \<in> set (NodeSetSlice db Path1Loop startNodes).
                succeeds (TraversalBreadthFirst db (ADCSESC1Path1Pattern (EndID edge)) n)"
    and ok2: "\<forall>n \<in> set (NodeSetSlice db Path2Loop startNodes).
                succeeds (TraversalBreadthFirst db (ADCSESC1Path2Pattern (EndID edge) cas1) n)"
    and has1: "\<forall>t \<in> set found1. path1CA t \<noteq> None"
    and has2: "\<forall>t \<in> set found2. path2CA t \<noteq> None"
  shows "GetADCSESC1EdgeComposition db edge =
     Returns (Inr (concat (map (\<lambda>c. map SegmentPath
        (filter (\<lambda>t. caID path1CA t = c) found1 @ filter (\<lambda>t. caID path2CA t = c) found2))
        (sorted_list_of_set (cas1 \<inter> cas2)))))"
proof -
  have p1: "forStartNodes (TraversalBreadthFirst db (ADCSESC1Path1Pattern (EndID edge)))
      path1Terminal (NodeSetSlice db Path1Loop startNodes) (\<lambda>_. [], {}) =
      Returns (Inr (\<lambda>c. filter (\<lambda>t. caID path1CA t = c) found1, cas1))"
    unfolding path1Terminal_eq
    using forStartNodes_filed [OF ok1, of path1CA "\<lambda>_. []" "{}"] has1
    by (simp add: found1 cas1)
  have p2: "forStartNodes (TraversalBreadthFirst db (ADCSESC1Path2Pattern (EndID edge) cas1))
      path2Terminal (NodeSetSlice db Path2Loop startNodes)
      (\<lambda>c. filter (\<lambda>t. caID path1CA t = c) found1, {}) =
      Returns (Inr (\<lambda>c. filter (\<lambda>t. caID path1CA t = c) found1
                          @ filter (\<lambda>t. caID path2CA t = c) found2, cas2))"
    unfolding path2Terminal_eq
    using forStartNodes_filed [OF ok2, of path2CA
        "\<lambda>c. filter (\<lambda>t. caID path1CA t = c) found1" "{}"] has2
    by (simp add: found2 cas2)
  show ?thesis
    unfolding GetADCSESC1EdgeComposition_def
    by (simp add: start groups startNodes [symmetric] p1 p2 renderPaths_eq Each_def)
qed

text \<open>
  Claim C7. When the reads of the database succeed (the start node, the sentinel groups and
  the traversals of the two patterns from every start node) and every terminal segment
  holds an EnterpriseCA, as the two patterns make it, \<open>GetADCSESC1EdgeComposition\<close> returns
  no error, and the paths it returns are, as a multiset, the paths of the discovered
  terminal segments of both traversals whose EnterpriseCA is in the Path-1 CA set and in
  the Path-2 CA set. When the two sets do not meet, the result is the empty path set with a
  nil error.
\<close>

theorem GetADCSESC1EdgeComposition_intersection:
  assumes start: "ReadFetchNode db (StartID edge) = Inr startNode"
    and groups: "ReadAuthUsersAndEveryoneGroups db = Inr nodeSet"
    and startNodes: "startNodes = NodeSet_Add (NodeSet_AddSet [] nodeSet) startNode"
    and found1: "found1 = discovered (TraversalBreadthFirst db (ADCSESC1Path1Pattern (EndID edge)))
                   (NodeSetSlice db Path1Loop startNodes)"
    and cas1: "cas1 = caID path1CA ` set found1"
    and found2: "found2 = discovered (TraversalBreadthFirst db (ADCSESC1Path2Pattern (EndID edge) cas1))
                   (NodeSetSlice db Path2Loop startNodes)"
    and cas2: "cas2 = caID path2CA ` set found2"
    and ok1: "\<forall>n \<in> set (NodeSetSlice db Path1Loop startNodes).
                succeeds (TraversalBreadthFirst db (ADCSESC1Path1Pattern (EndID edge)) n)"
    and ok2: "\<forall>n \<in> set (NodeSetSlice db Path2Loop startNodes).
                succeeds (TraversalBreadthFirst db (ADCSESC1Path2Pattern (EndID edge) cas1) n)"
    and has1: "\<forall>t \<in> set found1. path1CA t \<noteq> None"
    and has2: "\<forall>t \<in> set found2. path2CA t \<noteq> None"
  shows "\<exists>paths. GetADCSESC1EdgeComposition db edge = Returns (Inr paths) \<and>
     mset paths = mset (map SegmentPath
        (filter (\<lambda>t. caID path1CA t \<in> cas1 \<inter> cas2) found1 @
         filter (\<lambda>t. caID path2CA t \<in> cas1 \<inter> cas2) found2)) \<and>
     (cas1 \<inter> cas2 = {} \<longrightarrow> paths = [])"
proof -
  define paths where "paths = concat (map (\<lambda>c. map SegmentPath
        (filter (\<lambda>t. caID path1CA t = c) found1 @ filter (\<lambda>t. caID path2CA t = c) found2))
        (sorted_list_of_set (cas1 \<inter> cas2)))"
  have res: "GetADCSESC1EdgeComposition db edge = Returns (Inr paths)"
    unfolding paths_def
    by (rule GetADCSESC1EdgeComposition_eq
          [OF start groups startNodes found1 cas1 found2 cas2 ok1 ok2 has1 has2])
  have "mset paths = mset (map SegmentPath
        (filter (\<lambda>t. caID path1CA t \<in> set (sorted_list_of_set (cas1 \<inter> cas2))) found1 @
         filter (\<lambda>t. caID path2CA t \<in> set (sorted_list_of_set (cas1 \<inter> cas2))) found2))"
    unfolding paths_def by (rule mset_by_key) simp
  then have ms: "mset paths = mset (map SegmentPath
        (filter (\<lambda>t. caID path1CA t \<in> cas1 \<inter> cas2) found1 @
         filter (\<lambda>t. caID path2CA t \<in> cas1 \<inter> cas2) found2))"
    by simp
  have "paths = []" if "cas1 \<inter> cas2 = {}"
    unfolding paths_def using that by simp
  with res ms show ?thesis by blast
qed

lemma composition_startNodes:
  "NodeSet_Add (NodeSet_AddSet [] [authUsers, everyone]) userX = [authUsers, everyone, userX]"
  by (simp add: NodeSet_Add_def NodeSet_AddSet_def authUsers_def everyone_def userX_def)

lemma composition_found1:
  "discovered (TraversalBreadthFirst (compositionDatabase p2) (ADCSESC1Path1Pattern (EndID esc1Edge)))
     (NodeSetSlice (compositionDatabase p2) Path1Loop [authUsers, everyone, userX]) = [path1Segment]"
  by (simp add: discovered_def compositionDatabase_def ADCSESC1Path1Pattern_def
        authUsers_def everyone_def userX_def)

lemma composition_found2:
  "discovered (TraversalBreadthFirst (compositionDatabase p2) (ADCSESC1Path2Pattern (EndID esc1Edge) cas))
     (NodeSetSlice (compositionDatabase p2) Path2Loop [authUsers, everyone, userX]) = p2"
  by (simp add: discovered_def compositionDatabase_def ADCSESC1Path2Pattern_def
        authUsers_def everyone_def userX_def)

lemma composition_cas:
  "path1CA path1Segment = Some enterpriseCA1" "path2CA path2Segment = Some enterpriseCA1"
  by (simp_all add: path1CA_def path2CA_def path1Segment_def path2Segment_def ContainsOneOf_def
        domain1_def rootCA1_def enterpriseCA1_def certTemplate1_def groupG_def userX_def ntAuthStore1_def)

theorem GetADCSESC1EdgeComposition_intersection_witness:
  "(\<exists>paths. GetADCSESC1EdgeComposition (compositionDatabase [path2Segment]) esc1Edge
        = Returns (Inr paths) \<and>
      mset paths = mset [SegmentPath path1Segment, SegmentPath path2Segment]) \<and>
   GetADCSESC1EdgeComposition (compositionDatabase []) esc1Edge = Returns (Inr [])"
proof -
  have ok: "\<forall>n \<in> set (NodeSetSlice (compositionDatabase p2) l [authUsers, everyone, userX]).
      succeeds (TraversalBreadthFirst (compositionDatabase p2) pat n)" for p2 l pat
    by (simp add: compositionDatabase_def succeeds_def)
  have start: "ReadFetchNode (compositionDatabase p2) (StartID esc1Edge) = Inr userX" for p2
    by (simp add: compositionDatabase_def esc1Edge_def)
  have groups: "ReadAuthUsersAndEveryoneGroups (compositionDatabase p2) = Inr [authUsers, everyone]" for p2
    by (simp add: compositionDatabase_def)
  have c1: "caID path1CA ` set [path1Segment] = {30}"
    by (simp add: caID_def composition_cas enterpriseCA1_def)
  have c2: "caID path2CA ` set [path2Segment] = {30}"
    by (simp add: caID_def composition_cas enterpriseCA1_def)
  from GetADCSESC1EdgeComposition_intersection
    [OF start [of "[path2Segment]"] groups [of "[path2Segment]"]
      composition_startNodes [symmetric] composition_found1 [of "[path2Segment]", symmetric]
      c1 [symmetric] composition_found2 [of "[path2Segment]" "{30}", symmetric] c2 [symmetric]
      ok [of "[path2Segment]"] ok [of "[path2Segment]"]]
  have a: "\<exists>paths. GetADCSESC1EdgeComposition (compositionDatabase [path2Segment]) esc1Edge
        = Returns (Inr paths) \<and>
      mset paths = mset [SegmentPath path1Segment, SegmentPath path2Segment]"
    by (simp add: composition_cas caID_def enterpriseCA1_def)
  have e: "caID path2CA ` set [] = {}" by simp
  from GetADCSESC1EdgeComposition_intersection
    [OF start [of "[]"] groups [of "[]"]
      composition_startNodes [symmetric] composition_found1 [of "[]", symmetric]
      c1 [symmetric] composition_found2 [of "[]" "{30}", symmetric] e [symmetric]
      ok [of "[]"] ok [of "[]"]]
  have b: "GetADCSESC1EdgeComposition (compositionDatabase []) esc1Edge = Returns (Inr [])"
    by (simp add: composition_cas)
  from a b show ?thesis by blast
qed


section \<open>Properties of the post-processing readers\<close>

subsection \<open>Missing properties\<close>

lemma hasTrustKeysTrusting_append:
  "hasTrustKeysTrusting tx domain netbios (xs @ ys) outC =
     hasTrustKeysTrusting tx domain netbios ys (hasTrustKeysTrusting tx domain netbios xs outC)"
  by (induction xs arbitrary: outC) (auto split: sum.splits)

lemma hasTrustKeysDomains_append:
  "hasTrustKeysDomains tx (xs @ ys) outC =
     hasTrustKeysDomains tx ys (hasTrustKeysDomains tx xs outC)"
  by (induction xs arbitrary: outC) (auto split: sum.splits)

lemma hasTrustKeysDomains_skip:
  assumes "PropertyString domain NetBIOS = Inl err"
  shows "hasTrustKeysDomains tx (before @ domain # after) outC =
     hasTrustKeysDomains tx (before @ after) outC"
  using assms by (simp add: hasTrustKeysDomains_append)

lemma hasTrustKeysTrusting_skip:
  assumes "PropertyString trustingDomain DomainSID = Inl err"
  shows "hasTrustKeysTrusting tx domain netbios (before @ trustingDomain # after) outC =
     hasTrustKeysTrusting tx domain netbios (before @ after) outC"
  using assms by (simp add: hasTrustKeysTrusting_append)

lemma PostSyncLAPSPassword_reader_no_sid:
  assumes "PropertyString innerDomain DomainSID = Inl err"
    and "getLAPSSyncers sortSlice tx innerDomain ge = Inr lapsSyncers"
  shows "PostSyncLAPSPassword_reader sortSlice ge innerDomain tx outC =
     (outC, if Cardinality lapsSyncers = 0 then None else Some err)"
  using assms by (simp add: PostSyncLAPSPassword_reader_def getLAPSComputersForDomain_def)

lemma lapsSyncers_userX:
  "getLAPSSyncers keysAscending lapsTransaction domainNoSID expansionsG = Inr {2}"
  by code_simp

text \<open>
  Claim C8, as the code has it. The reader of \<open>PostHasTrustKeys\<close> returns nil for every
  list of domains and every answer of the store; a domain without a NetBIOS property and a
  trusting domain without a DomainSID property are passed over, the jobs of the remaining
  ones being emitted as if the entity were absent. The reader of \<open>PostSyncLAPSPassword\<close>
  does not pass over a domain without a DomainSID property: it returns nil only when the
  domain has no LAPS syncers, and the property error otherwise.
\<close>

theorem readers_missing_property:
  "snd (PostHasTrustKeys_reader domainNodes tx outC) = None \<and>
   (PropertyString domain NetBIOS = Inl err1 \<longrightarrow>
      PostHasTrustKeys_reader (before @ domain # after) tx outC =
        PostHasTrustKeys_reader (before @ after) tx outC) \<and>
   (PropertyString trustingDomain DomainSID = Inl err2 \<longrightarrow>
      hasTrustKeysTrusting tx domain netbios (trustingBefore @ trustingDomain # trustingAfter) outC =
        hasTrustKeysTrusting tx domain netbios (trustingBefore @ trustingAfter) outC) \<and>
   (PropertyString innerDomain DomainSID = Inl err \<and>
    getLAPSSyncers sortSlice tx innerDomain groupExpansions = Inr lapsSyncers \<longrightarrow>
      PostSyncLAPSPassword_reader sortSlice groupExpansions innerDomain tx outC =
        (outC, if Cardinality lapsSyncers = 0 then None else Some err))"
proof (intro conjI impI)
  show "snd (PostHasTrustKeys_reader domainNodes tx outC) = None"
    by (simp add: PostHasTrustKeys_reader_def)
next
  assume "PropertyString domain NetBIOS = Inl err1"
  then show "PostHasTrustKeys_reader (before @ domain # after) tx outC =
        PostHasTrustKeys_reader (before @ after) tx outC"
    unfolding PostHasTrustKeys_reader_def by (simp add: hasTrustKeysDomains_skip)
next
  assume "PropertyString trustingDomain DomainSID = Inl err2"
  then show "hasTrustKeysTrusting tx domain netbios (trustingBefore @ trustingDomain # trustingAfter) outC =
        hasTrustKeysTrusting tx domain netbios (trustingBefore @ trustingAfter) outC"
    by (rule hasTrustKeysTrusting_skip)
next
  assume "PropertyString innerDomain DomainSID = Inl err \<and>
    getLAPSSyncers sortSlice tx innerDomain groupExpansions = Inr lapsSyncers"
  then show "PostSyncLAPSPassword_reader sortSlice groupExpansions innerDomain tx outC =
        (outC, if Cardinality lapsSyncers = 0 then None else Some err)"
    by (intro PostSyncLAPSPassword_reader_no_sid) simp_all
qed

theorem readers_missing_property_witness:
  "PostHasTrustKeys_reader [domainNoNetBIOS, domainCorp] trustTransaction [] =
     PostHasTrustKeys_reader [domainCorp] trustTransaction [] \<and>
   hasTrustKeysTrusting trustTransaction domainCorp ''CORP'' [trustingNoSID, trustingPartner] [] =
     hasTrustKeysTrusting trustTransaction domainCorp ''CORP'' [trustingPartner] [] \<and>
   PostSyncLAPSPassword_reader keysAscending expansionsG domainNoSID lapsTransaction [] =
     ([], Some (PropertyError DomainSID))"
proof -
  have a: "PropertyString domainNoNetBIOS NetBIOS = Inl (PropertyError NetBIOS)"
    by (simp add: PropertyString_def domainNoNetBIOS_def)
  have b: "PropertyString trustingNoSID DomainSID = Inl (PropertyError DomainSID)"
    by (simp add: PropertyString_def trustingNoSID_def)
  have c: "PropertyString domainNoSID DomainSID = Inl (PropertyError DomainSID)"
    by (simp add: PropertyString_def domainNoSID_def)
  have d: "Cardinality {2 :: uint64} \<noteq> 0"
    by (simp add: Cardinality_def)
  from readers_missing_property
    [where domainNodes = "[domainNoNetBIOS, domainCorp]" and tx = trustTransaction
      and outC = "[]" and domain = domainNoNetBIOS and ?err1.0 = "PropertyError NetBIOS"
      and before = "[]" and after = "[domainCorp]"]
  have "PostHasTrustKeys_reader [domainNoNetBIOS, domainCorp] trustTransaction [] =
     PostHasTrustKeys_reader [domainCorp] trustTransaction []"
    using a by simp
  moreover
  from readers_missing_property
    [where tx = trustTransaction and outC = "[]" and trustingDomain = trustingNoSID
      and ?err2.0 = "PropertyError DomainSID" and domain = domainCorp and netbios = "''CORP''"
      and trustingBefore = "[]" and trustingAfter = "[trustingPartner]"]
  have "hasTrustKeysTrusting trustTransaction domainCorp ''CORP'' [trustingNoSID, trustingPartner] [] =
     hasTrustKeysTrusting trustTransaction domainCorp ''CORP'' [trustingPartner] []"
    using b by simp
  moreover
  from readers_missing_property
    [where tx = lapsTransaction and outC = "[]" and innerDomain = domainNoSID
      and err = "PropertyError DomainSID" and sortSlice = keysAscending
      and groupExpansions = expansionsG and lapsSyncers = "{2}"]
  have "PostSyncLAPSPassword_reader keysAscending expansionsG domainNoSID lapsTransaction [] =
     ([], Some (PropertyError DomainSID))"
    using c d lapsSyncers_userX by simp
  ultimately show ?thesis by blast
qed

text \<open>
  The claim as the specification words it fails in the LAPS reader: for a domain without a
  DomainSID property on which UserX holds both rights, the reader returns the property
  error, which ends the pass.
\<close>

theorem readers_missing_property_counterexample:
  "PropertyString domainNoSID DomainSID = Inl (PropertyError DomainSID) \<and>
   PostSyncLAPSPassword_reader keysAscending expansionsG domainNoSID lapsTransaction [] =
     ([], Some (PropertyError DomainSID))"
  by code_simp

subsection \<open>The duplex type assertions of the CanRDP path\<close>

lemma FetchCanRDPEntityBitmapForComputer_checked_assertion:
  assumes "FetchRemoteDesktopUsersBitmapForComputer tx computer agg enforceURA
      = Returns (Inr remoteDesktopUsers)"
    and "Cardinality remoteDesktopUsers \<noteq> 0"
    and "FetchComputerLocalGroupByName tx computer ''Direct Access Users'' = Inr dau"
    and "agg (ID dau) = SimplexProvider"
  shows "FetchCanRDPEntityBitmapForComputer tx computer agg enforceURA True
      = Returns (Inl TypeAssertionFailed)"
  using assms by (simp add: FetchCanRDPEntityBitmapForComputer_def)

lemma ProcessRDPWithUra_unchecked_assertion:
  "agg (ID rdpLocalGroup) = SimplexProvider \<Longrightarrow>
     ProcessRDPWithUra tx rdpLocalGroup computer agg = Panics"
  by (simp add: ProcessRDPWithUra_def)

text \<open>
  Claim C9 at a failing input. With user-rights enforcement on, the Remote Desktop Users
  group of the computer is looked up in the aggregator by \<open>ProcessRDPWithUra\<close> and asserted
  to be a duplex without a check: on a simplex provider the call panics, where the claim
  has an error returned. The assertion in \<open>FetchCanRDPEntityBitmapForComputer\<close> itself is
  checked and returns the error.
\<close>

theorem FetchCanRDPEntityBitmapForComputer_panics:
  "FetchCanRDPEntityBitmapForComputer rdpTransaction 70 simplexExpansions True False = Panics \<and>
   FetchCanRDPEntityBitmapForComputer rdpTransaction 70 simplexExpansions False True
     = Returns (Inl TypeAssertionFailed)"
  by code_simp


section \<open>Properties of the group membership resolution\<close>

subsection \<open>The run returns when the store answers\<close>





subsection \<open>No node is descended into twice\<close>



lemma descents_append: "descents (xs @ ys) = descents xs @ descents ys"
  by (simp add: descents_def)






subsection \<open>The cycle of three groups\<close>





end
